theory Spec2Isabelle
  imports Complex_Main "HOL-Library.Multiset"
begin

section \<open>The unpooled-model notebook (05-unpooled_model.ipynb)\<close>

text \<open>
  The notebook is a straight sequence of eight code cells. Its own code is: the imports and
  two set-up calls of cell 1, four string constants (the blocks of a Stan program), a
  dictionary literal, one call of \<^verbatim>\<open>pystan.stan\<close>, two \<^verbatim>\<open>pd.Series\<close>
  constructions and a plotting cell. Everything else is library code. The embedding keeps
  the notebook's variable names. What a library computes is modelled from its documented
  behaviour. What the notebook cannot determine is a field of the record \<open>world\<close>: the
  imports, the dataset module, the sampler, the tie order of numpy's sort, and pandas on a
  non-unique index. The world outside the notebook has a state of its own (installed
  modules, random seeds, plotting settings) that the imports, the set-up calls and the
  sampler may read and change.

  Floating-point numbers are modelled by \<open>real\<close>, without rounding, together with NaN for
  the result of a reduction over no values. The draws themselves are taken to be numbers.
\<close>

subsection \<open>Errors and sequencing\<close>

datatype error =
    ImportError | TypeError | ValueError | KeyError | IndexError | RuntimeError string

text \<open>A computation inside the notebook: its value, or the error it raises.\<close>

definition and_then :: "error + 'a \<Rightarrow> ('a \<Rightarrow> error + 'b) \<Rightarrow> error + 'b" where
  "and_then r f = (case r of Inl e \<Rightarrow> Inl e | Inr v \<Rightarrow> f v)"

text \<open>
  A step that may also read and change the state of the outside world. A step that raises
  ends the sequence; the state stays as that step left it.
\<close>

type_synonym ('a, 's) step = "'s \<Rightarrow> (error + 'a) \<times> 's"

definition next_step :: "('a, 's) step \<Rightarrow> ('a \<Rightarrow> ('b, 's) step) \<Rightarrow> ('b, 's) step" where
  "next_step m f s = (case m s of (Inl e, s') \<Rightarrow> (Inl e, s') | (Inr v, s') \<Rightarrow> f v s')"

definition pure_step :: "error + 'a \<Rightarrow> ('a, 's) step" where
  "pure_step r s = (r, s)"

subsection \<open>Scalars, arrays and the object store\<close>

datatype scalar = IntVal int | FloatVal real | StrVal string

text \<open>
  The integer element types of numpy, with their least and greatest values. Arithmetic on
  an integer array stays in the array's type and wraps around.
\<close>

datatype dtype = Int8 | Int16 | Int32 | Int64 | UInt8 | UInt16 | UInt32 | UInt64

fun lowest :: "dtype \<Rightarrow> int" where
  "lowest Int8 = - 128"
| "lowest Int16 = - 32768"
| "lowest Int32 = - 2147483648"
| "lowest Int64 = - 9223372036854775808"
| "lowest UInt8 = 0"
| "lowest UInt16 = 0"
| "lowest UInt32 = 0"
| "lowest UInt64 = 0"

fun highest :: "dtype \<Rightarrow> int" where
  "highest Int8 = 127"
| "highest Int16 = 32767"
| "highest Int32 = 2147483647"
| "highest Int64 = 9223372036854775807"
| "highest UInt8 = 255"
| "highest UInt16 = 65535"
| "highest UInt32 = 4294967295"
| "highest UInt64 = 18446744073709551615"

definition wrap :: "dtype \<Rightarrow> int \<Rightarrow> int" where
  "wrap t x = lowest t + (x - lowest t) mod (highest t - lowest t + 1)"

text \<open>A one-dimensional numpy array with its element type.\<close>

datatype ndarray =
    IntArray dtype "int list" | FloatArray "real list" | StrArray "string list"

fun elems :: "ndarray \<Rightarrow> scalar list" where
  "elems (IntArray t xs) = map IntVal xs"
| "elems (FloatArray xs) = map FloatVal xs"
| "elems (StrArray xs) = map StrVal xs"

text \<open>\<^verbatim>\<open>len(arr)\<close>\<close>

definition len :: "ndarray \<Rightarrow> nat" where
  "len arr = length (elems arr)"

text \<open>
  \<^verbatim>\<open>arr + k\<close> for a small Python integer \<open>k\<close> (the notebook adds 1): numpy builds a new
  array of the same element type and leaves \<open>arr\<close> alone. On an integer array the sum wraps
  around in the element type; on an array of strings the addition raises a
  \<^verbatim>\<open>TypeError\<close>.
\<close>

fun np_add :: "ndarray \<Rightarrow> int \<Rightarrow> error + ndarray" where
  "np_add (IntArray t xs) k = Inr (IntArray t (map (\<lambda>c. wrap t (c + k)) xs))"
| "np_add (FloatArray xs) k = Inr (FloatArray (map (\<lambda>c. c + of_int k) xs))"
| "np_add (StrArray xs) k = Inl TypeError"

text \<open>
  Arrays are objects: two variables may hold the same array. The store maps an address to
  the array that lives there; \<open>free\<close> is the first address not yet handed out.
\<close>

type_synonym addr = nat

record heap =
  cells :: "addr \<Rightarrow> ndarray"
  free :: addr

definition alloc :: "ndarray \<Rightarrow> heap \<Rightarrow> addr \<times> heap" where
  "alloc arr h = (free h, h\<lparr>cells := (cells h)(free h := arr), free := Suc (free h)\<rparr>)"

text \<open>
  The module \<^verbatim>\<open>clean_data\<close>: the four attributes the notebook reads, each a
  reference to an array.
\<close>

record clean_data_module =
  log_radon :: addr
  county :: addr
  floor_measure :: addr
  mn_counties :: addr

definition allocated :: "heap \<Rightarrow> clean_data_module \<Rightarrow> bool" where
  "allocated h cd \<longleftrightarrow>
     log_radon cd < free h \<and> county cd < free h \<and>
     floor_measure cd < free h \<and> mn_counties cd < free h"

subsection \<open>Cells 2 to 5: the four blocks of the Stan program\<close>

definition unpooled_data :: string where
  "unpooled_data =
     ''\<newline>data {\<newline>  int<lower=0> N;\<newline>  int<lower=1, upper=85> county[N];\<newline>  vector[N] x;\<newline>  vector[N] y;\<newline>}\<newline>''"

definition unpooled_parameters :: string where
  "unpooled_parameters =
     ''\<newline>parameters {\<newline>  vector[85] a;\<newline>  real beta;\<newline>  real<lower=0, upper=100> sigma;\<newline>}\<newline>''"

definition unpooled_transformed_parameters :: string where
  "unpooled_transformed_parameters =
     ''\<newline>transformed parameters {\<newline>  vector[N] y_hat;\<newline>  \<newline>  for (i in 1:N)\<newline>    y_hat[i] <- beta * x[i] + a[county[i]];\<newline>}\<newline>''"

definition unpooled_model :: string where
  "unpooled_model =
     ''\<newline>model {\<newline>  y ~ normal(y_hat, sigma);\<newline>}\<newline>''"

text \<open>Splitting a text at its newline characters, to read it line by line.\<close>

fun split_lines :: "string \<Rightarrow> string list" where
  "split_lines [] = [[]]"
| "split_lines (c # cs) =
     (if c = CHR 0x0A then [] # split_lines cs
      else (case split_lines cs of l # ls \<Rightarrow> (c # l) # ls | [] \<Rightarrow> [[c]]))"

subsection \<open>The values the notebook handles\<close>

text \<open>A value of the dictionary: a Python integer or a reference to an array.\<close>

datatype pyval = PyInt int | PyRef addr

type_synonym dict = "(string \<times> pyval) list"

text \<open>
  The keyword arguments the notebook gives to \<^verbatim>\<open>pystan.stan\<close>: these four and no
  other (no \<^verbatim>\<open>seed\<close> among them).
\<close>

record stan_call =
  model_code :: string
  data :: dict
  iter :: nat
  chains :: nat

text \<open>
  A two-dimensional array of draws: either it has no rows and a number of columns, or it
  has a first row and further rows.
\<close>

datatype ndarray2 = NoRows nat | Rows "real list" "real list list"

fun rows_of :: "ndarray2 \<Rightarrow> real list list" where
  "rows_of (NoRows k) = []"
| "rows_of (Rows row rest) = row # rest"

fun ncols :: "ndarray2 \<Rightarrow> nat" where
  "ncols (NoRows k) = k"
| "ncols (Rows row rest) = length row"

text \<open>
  The fit object is used through indexing only: \<^verbatim>\<open>unpooled_fit['a']\<close> gives a
  two-dimensional array, one row per draw and one column per county.
\<close>

type_synonym stanfit = "string \<Rightarrow> error + ndarray2"

text \<open>A number computed by numpy: a real number or NaN.\<close>

datatype float = Num real | NaN

fun is_nan :: "float \<Rightarrow> bool" where
  "is_nan NaN = True"
| "is_nan (Num x) = False"

fun fsub :: "float \<Rightarrow> float \<Rightarrow> float" where
  "fsub (Num a) (Num b) = Num (a - b)"
| "fsub a b = NaN"

fun fadd :: "float \<Rightarrow> float \<Rightarrow> float" where
  "fadd (Num a) (Num b) = Num (a + b)"
| "fadd a b = NaN"

text \<open>A series is the list of its rows, a label and a value each.\<close>

type_synonym series = "(scalar \<times> float) list"

subsection \<open>The world outside the notebook\<close>

text \<open>
  The steps that reach outside the notebook, each acting on the outside state \<open>'s\<close>: the
  \<^verbatim>\<open>%pylab inline\<close> magic, the import of a library, the import of the dataset module
  (which answers the store holding its arrays), \<^verbatim>\<open>sns.set_context\<close>, and the sampler.
  The sampler is handed the dictionary and the store its references point into; like every
  library call here it is taken to read the arrays it is given, never to write them.

  Two library behaviours are left to the world as well, as functions: the permutation
  numpy's sort returns, and what pandas does when a series is indexed by labels and its
  index has duplicates or misses a label (the versions of pandas differ there).
\<close>

record 's world =
  pylab_inline :: "(unit, 's) step"
  import_module :: "string \<Rightarrow> (unit, 's) step"
  import_clean_data :: "(heap \<times> clean_data_module, 's) step"
  sns_set_context :: "string \<Rightarrow> (unit, 's) step"
  pystan_stan :: "stan_call \<Rightarrow> heap \<Rightarrow> (stanfit, 's) step"
  np_argsort :: "real list \<Rightarrow> nat list"
  pd_getitem_irregular :: "series \<Rightarrow> scalar list \<Rightarrow> error + series"

subsection \<open>Cell 1: imports and set-up\<close>

text \<open>
  \<^verbatim>\<open>%pylab inline
  import numpy as np
  import pandas as pd
  import pystan
  import seaborn as sns
  import clean_data
  sns.set_context('notebook')\<close>

  The cell leaves the dataset module (and the store with its arrays) behind.
\<close>

definition cell1 :: "'s world \<Rightarrow> (heap \<times> clean_data_module, 's) step" where
  "cell1 w =
     next_step (pylab_inline w) (\<lambda>_.
     next_step (import_module w ''numpy'') (\<lambda>_.
     next_step (import_module w ''pandas'') (\<lambda>_.
     next_step (import_module w ''pystan'') (\<lambda>_.
     next_step (import_module w ''seaborn'') (\<lambda>_.
     next_step (import_clean_data w) (\<lambda>loaded.
     next_step (sns_set_context w ''notebook'') (\<lambda>_.
       pure_step (Inr loaded))))))))"

subsection \<open>Cell 6: the data dictionary and the call of the sampler\<close>

text \<open>
  \<^verbatim>\<open>unpooled_data_dict = {'N': len(clean_data.log_radon),
                        'county': clean_data.county + 1,
                        'x': clean_data.floor_measure,
                        'y': clean_data.log_radon}\<close>
\<close>

definition map_data :: "heap \<Rightarrow> clean_data_module \<Rightarrow> error + heap \<times> dict" where
  "map_data h cd =
     (let n = len (cells h (log_radon cd)) in
      and_then (np_add (cells h (county cd)) 1) (\<lambda>arr.
        case alloc arr h of (p, h') \<Rightarrow>
          Inr (h', [(''N'', PyInt (int n)),
                    (''county'', PyRef p),
                    (''x'', PyRef (floor_measure cd)),
                    (''y'', PyRef (log_radon cd))])))"

text \<open>
  \<^verbatim>\<open>pystan.stan(model_code=unpooled_data + unpooled_parameters +
                         unpooled_transformed_parameters + unpooled_model,
              data=unpooled_data_dict, iter=1000, chains=2)\<close>
\<close>

definition stan_args :: "dict \<Rightarrow> stan_call" where
  "stan_args d =
     \<lparr>model_code = unpooled_data @ unpooled_parameters @
                     unpooled_transformed_parameters @ unpooled_model,
      data = d, iter = 1000, chains = 2\<rparr>"

subsection \<open>Cell 7: the summaries per county\<close>

text \<open>
  \<^verbatim>\<open>arr.mean(0)\<close> and \<^verbatim>\<open>arr.std(0)\<close> reduce a two-dimensional array along
  its first axis: one number per column. numpy's \<^verbatim>\<open>std\<close> divides by the number of
  rows (\<^verbatim>\<open>ddof=0\<close>). Over no rows both answer NaN, once per column. Every row of an
  array has \<open>ncols\<close> entries.
\<close>

definition column :: "ndarray2 \<Rightarrow> nat \<Rightarrow> real list" where
  "column arr j = map (\<lambda>row. row ! j) (rows_of arr)"

definition mean :: "real list \<Rightarrow> float" where
  "mean xs = (if xs = [] then NaN else Num (sum_list xs / real (length xs)))"

definition std :: "real list \<Rightarrow> float" where
  "std xs =
     (if xs = [] then NaN
      else Num (sqrt (sum_list (map (\<lambda>x. \<bar>x - sum_list xs / real (length xs)\<bar> ^ 2) xs) /
                      real (length xs))))"

definition mean0 :: "ndarray2 \<Rightarrow> float list" where
  "mean0 arr = map (\<lambda>j. mean (column arr j)) [0..<ncols arr]"

definition std0 :: "ndarray2 \<Rightarrow> float list" where
  "std0 arr = map (\<lambda>j. std (column arr j)) [0..<ncols arr]"

text \<open>
  \<^verbatim>\<open>pd.Series(values, index=labels)\<close> pairs the values with the labels by position and
  raises a \<^verbatim>\<open>ValueError\<close> when their lengths differ.
\<close>

definition pd_Series :: "float list \<Rightarrow> scalar list \<Rightarrow> error + series" where
  "pd_Series vs labels =
     (if length vs = length labels then Inr (zip labels vs) else Inl ValueError)"

definition index :: "series \<Rightarrow> scalar list" where
  "index s = map fst s"

definition values_of :: "series \<Rightarrow> float list" where
  "values_of s = map snd s"

definition head :: "series \<Rightarrow> series" where
  "head s = take 5 s"

text \<open>
  \<^verbatim>\<open>unpooled_estimates = pd.Series(unpooled_fit['a'].mean(0), index=clean_data.mn_counties)
  unpooled_se = pd.Series(unpooled_fit['a'].std(0), index=clean_data.mn_counties)
  unpooled_estimates.head()\<close>

  The result is the two series and the displayed head.
\<close>

definition cell7 ::
  "heap \<Rightarrow> clean_data_module \<Rightarrow> stanfit \<Rightarrow> error + series \<times> series \<times> series" where
  "cell7 h cd fit =
     and_then (fit ''a'') (\<lambda>a1.
     and_then (pd_Series (mean0 a1) (elems (cells h (mn_counties cd)))) (\<lambda>est.
     and_then (fit ''a'') (\<lambda>a2.
     and_then (pd_Series (std0 a2) (elems (cells h (mn_counties cd)))) (\<lambda>se.
       Inr (est, se, head est)))))"

subsection \<open>Cell 8: the plot\<close>

text \<open>
  \<^verbatim>\<open>s.sort_values()\<close> reorders the rows: the rows whose value is a number come first,
  by the permutation that sorts these numbers ascending, and the rows whose value is NaN
  follow in their own order. numpy's default sort is not stable, so the permutation is the
  world's; its entries are positions in the list of numbers.
\<close>

definition finite_values :: "float list \<Rightarrow> real list" where
  "finite_values vs = List.map_filter (\<lambda>v. case v of Num x \<Rightarrow> Some x | NaN \<Rightarrow> None) vs"

definition nargsort :: "(real list \<Rightarrow> nat list) \<Rightarrow> float list \<Rightarrow> nat list" where
  "nargsort argsort vs =
     (let non_nan_idx = filter (\<lambda>i. \<not> is_nan (vs ! i)) [0..<length vs];
          nan_idx = filter (\<lambda>i. is_nan (vs ! i)) [0..<length vs]
      in map (\<lambda>k. non_nan_idx ! k) (argsort (finite_values vs)) @ nan_idx)"

definition sort_values :: "(real list \<Rightarrow> nat list) \<Rightarrow> series \<Rightarrow> series" where
  "sort_values argsort s = map (\<lambda>i. s ! i) (nargsort argsort (values_of s))"

text \<open>
  What a sorting permutation is: a rearrangement of the positions that puts the values in
  nondecreasing order.
\<close>

definition sorting_permutation :: "(real list \<Rightarrow> nat list) \<Rightarrow> bool" where
  "sorting_permutation argsort \<longleftrightarrow>
     (\<forall>vs. mset (argsort vs) = mset [0..<length vs] \<and>
           sorted (map (\<lambda>i. vs ! i) (argsort vs)))"

text \<open>
  \<^verbatim>\<open>s[key]\<close> with an index of labels as the key selects by label: one row per label
  of the key, in the key's order. This is what every version of pandas does when the labels
  of \<open>s\<close> are distinct and each label of the key is among them; otherwise the answer is
  the world's.
\<close>

fun loc_rows :: "series \<Rightarrow> scalar list \<Rightarrow> series option" where
  "loc_rows s [] = Some []"
| "loc_rows s (l # ls) =
     (case map_of s l of
        None \<Rightarrow> None
      | Some v \<Rightarrow> (case loc_rows s ls of None \<Rightarrow> None | Some rs \<Rightarrow> Some ((l, v) # rs)))"

definition getitem :: "'s world \<Rightarrow> series \<Rightarrow> scalar list \<Rightarrow> error + series" where
  "getitem w s key =
     (if distinct (index s) then
        (case loc_rows s key of
           Some rs \<Rightarrow> Inr rs
         | None \<Rightarrow> pd_getitem_irregular w s key)
      else pd_getitem_irregular w s key)"

text \<open>The drawing commands that reach the figure, in order.\<close>

datatype plot_cmd =
    Scatter "nat list" "float list"
  | Plot "nat list" "float list" string
  | Xlim real real
  | Ylim real real
  | Title string
  | Xlabel string
  | Ylabel string

text \<open>
  \<^verbatim>\<open>plt.scatter(x, y)\<close> raises a \<^verbatim>\<open>ValueError\<close> when \<open>x\<close> and \<open>y\<close> differ in
  size.
\<close>

definition plt_scatter ::
  "plot_cmd list \<Rightarrow> nat list \<Rightarrow> float list \<Rightarrow> error + plot_cmd list" where
  "plt_scatter fig xs ys =
     (if length xs = length ys then Inr (fig @ [Scatter xs ys]) else Inl ValueError)"

text \<open>
  \<^verbatim>\<open>for i, m, se in zip(range(len(unpooled_estimates)),
                      unpooled_estimates[order], unpooled_se[order]):
      plt.plot([i,i], [m - se, m + se], 'b-')\<close>
\<close>

fun plot_bars :: "plot_cmd list \<Rightarrow> (nat \<times> float \<times> float) list \<Rightarrow> plot_cmd list" where
  "plot_bars fig [] = fig"
| "plot_bars fig ((i, m, se) # rest) =
     plot_bars (fig @ [Plot [i, i] [fsub m se, fadd m se] ''b-'']) rest"

definition zip3 :: "'a list \<Rightarrow> 'b list \<Rightarrow> 'c list \<Rightarrow> ('a \<times> 'b \<times> 'c) list" where
  "zip3 xs ys zs = zip xs (zip ys zs)"

text \<open>The result is the variable \<open>order\<close> and the figure.\<close>

definition cell8 :: "'s world \<Rightarrow> series \<Rightarrow> series \<Rightarrow> error + scalar list \<times> plot_cmd list" where
  "cell8 w unpooled_estimates unpooled_se =
     (let order = index (sort_values (np_argsort w) unpooled_estimates) in
      and_then (getitem w unpooled_estimates order) (\<lambda>ys.
      and_then (plt_scatter [] [0..<length unpooled_estimates] (values_of ys)) (\<lambda>fig.
      and_then (getitem w unpooled_estimates order) (\<lambda>ms.
      and_then (getitem w unpooled_se order) (\<lambda>ses.
        Inr (order,
             plot_bars fig
               (zip3 [0..<length unpooled_estimates] (values_of ms) (values_of ses)) @
             [Xlim (- 1) 86, Ylim (- 1) 4,
              Title ''Variation in county radon estimates'',
              Xlabel ''Ordered county'',
              Ylabel ''Radon estimate'']))))))"

subsection \<open>The whole notebook\<close>

text \<open>Cells 7 and 8 together: everything the notebook does with the fit object.\<close>

definition post_sampling ::
  "'s world \<Rightarrow> heap \<Rightarrow> clean_data_module \<Rightarrow> stanfit \<Rightarrow>
   error + series \<times> series \<times> series \<times> scalar list \<times> plot_cmd list" where
  "post_sampling w h cd fit =
     and_then (cell7 h cd fit) (\<lambda>(est, se, out).
     and_then (cell8 w est se) (\<lambda>(ord, fig).
       Inr (est, se, out, ord, fig)))"

text \<open>
  The variables the notebook leaves behind, the displayed output of cell 7 and the figure.
\<close>

record namespace =
  objects :: heap
  clean_data :: clean_data_module
  unpooled_data_dict :: dict
  unpooled_fit :: stanfit
  unpooled_estimates :: series
  unpooled_se :: series
  order :: "scalar list"
  out7 :: series
  figure :: "plot_cmd list"

text \<open>The cells in order, from a state of the outside world.\<close>

definition run :: "'s world \<Rightarrow> (namespace, 's) step" where
  "run w =
     next_step (cell1 w) (\<lambda>(h, cd).
     next_step (pure_step (map_data h cd)) (\<lambda>(h', d).
     next_step (pystan_stan w (stan_args d) h') (\<lambda>fit.
     next_step (pure_step (post_sampling w h' cd fit)) (\<lambda>(est, se, out, ord, fig).
       pure_step
         (Inr \<lparr>objects = h', clean_data = cd, unpooled_data_dict = d, unpooled_fit = fit,
               unpooled_estimates = est, unpooled_se = se, order = ord, out7 = out,
               figure = fig\<rparr>)))))"

subsection \<open>A world that keeps a log\<close>

text \<open>
  To speak about which outside steps a run takes, and how often, any world can be made to
  keep a log: each outside step, when it is taken, appends its own entry to a list kept in
  the outside state. The notebook is run unchanged in the logging world.
\<close>

datatype event =
    PylabInline
  | Import string
  | ImportCleanData
  | SetContext string
  | Stan stan_call

definition log_step :: "event \<Rightarrow> ('a, 's) step \<Rightarrow> ('a, 's \<times> event list) step" where
  "log_step ev m = (\<lambda>(s, evs). case m s of (r, s') \<Rightarrow> (r, (s', evs @ [ev])))"

definition logged :: "'s world \<Rightarrow> ('s \<times> event list) world" where
  "logged w =
     \<lparr>pylab_inline = log_step PylabInline (pylab_inline w),
      import_module = (\<lambda>name. log_step (Import name) (import_module w name)),
      import_clean_data = log_step ImportCleanData (import_clean_data w),
      sns_set_context = (\<lambda>ctx. log_step (SetContext ctx) (sns_set_context w ctx)),
      pystan_stan = (\<lambda>c h. log_step (Stan c) (pystan_stan w c h)),
      np_argsort = np_argsort w,
      pd_getitem_irregular = pd_getitem_irregular w\<rparr>"

subsection \<open>The Stan program read as a program\<close>

text \<open>
  The data block declares \<^verbatim>\<open>int<lower=1, upper=85> county[N]\<close> and the parameters
  block \<^verbatim>\<open>vector[85] a\<close>. Stan counts from 1 and checks every index.
\<close>

definition in_declared_bounds :: "int \<Rightarrow> bool" where
  "in_declared_bounds c \<longleftrightarrow> 1 \<le> c \<and> c \<le> 85"

definition stan_index :: "'a list \<Rightarrow> int \<Rightarrow> error + 'a" where
  "stan_index v i =
     (if 1 \<le> i \<and> i \<le> int (length v) then Inr (v ! nat (i - 1)) else Inl IndexError)"

text \<open>\<^verbatim>\<open>a[county[i]]\<close>\<close>

definition a_county :: "real list \<Rightarrow> int list \<Rightarrow> int \<Rightarrow> error + real" where
  "a_county a cs i = and_then (stan_index cs i) (\<lambda>ci. stan_index a ci)"

subsection \<open>A small world to run the notebook in\<close>

text \<open>
  Three households in two counties. The outside state is a counter that stands for the
  random state of the sampler: the sampler answers two draws that depend on it, and moves
  it on. Imports and set-up succeed and leave it alone. The sort is an insertion sort of
  the positions.
\<close>

definition example_heap :: heap where
  "example_heap =
     \<lparr>cells = (\<lambda>p. if p = 0 then FloatArray [1, 2, 3]
                   else if p = 1 then IntArray Int64 [0, 1, 1]
                   else if p = 2 then IntArray Int64 [0, 1, 0]
                   else if p = 3 then StrArray [''AITKIN'', ''ANOKA'']
                   else FloatArray []),
      free = 4\<rparr>"

definition example_module :: clean_data_module where
  "example_module = \<lparr>log_radon = 0, county = 1, floor_measure = 2, mn_counties = 3\<rparr>"

definition example_fit :: "nat \<Rightarrow> stanfit" where
  "example_fit s k =
     (if k = ''a'' then Inr (Rows [5 + real (s div 2), 2] [[3 + real (s div 2), 2]])
      else if k = ''beta'' then Inr (Rows [real s] [])
      else Inl KeyError)"

definition insertion_argsort :: "real list \<Rightarrow> nat list" where
  "insertion_argsort vs = sort_key (\<lambda>i. vs ! i) [0..<length vs]"

definition example_world :: "nat world" where
  "example_world =
     \<lparr>pylab_inline = pure_step (Inr ()),
      import_module = (\<lambda>name. pure_step (Inr ())),
      import_clean_data = pure_step (Inr (example_heap, example_module)),
      sns_set_context = (\<lambda>ctx. pure_step (Inr ())),
      pystan_stan = (\<lambda>c h s. (Inr (example_fit s), Suc s)),
      np_argsort = insertion_argsort,
      pd_getitem_irregular = (\<lambda>s key. Inl ValueError)\<rparr>"

text \<open>The same world with a sampler that fails.\<close>

definition failing_world :: "nat world" where
  "failing_world =
     example_world\<lparr>pystan_stan := (\<lambda>c h s. (Inl (RuntimeError ''Initialization failed.''), Suc s))\<rparr>"

text \<open>The same world with a sampler that answers a fit holding no draws.\<close>

definition no_draws_fit :: stanfit where
  "no_draws_fit k = (if k = ''a'' then Inr (NoRows 2) else Inl KeyError)"

definition no_draws_world :: "nat world" where
  "no_draws_world = example_world\<lparr>pystan_stan := (\<lambda>c h s. (Inr no_draws_fit, Suc s))\<rparr>"

text \<open>
  The same world with a dataset whose county column holds the county names instead of
  their numbers.
\<close>

definition names_as_county_world :: "nat world" where
  "names_as_county_world =
     example_world\<lparr>import_clean_data :=
       pure_step (Inr (example_heap\<lparr>cells := (cells example_heap)
                                        (1 := StrArray [''AITKIN'', ''ANOKA'', ''ANOKA''])\<rparr>,
                       example_module))\<rparr>"

text \<open>What a run in this world leaves behind when it starts from the state 0.\<close>

definition example_result :: namespace where
  "example_result =
     \<lparr>objects = \<lparr>cells = (cells example_heap)(4 := IntArray Int64 [1, 2, 2]), free = 5\<rparr>,
      clean_data = example_module,
      unpooled_data_dict =
        [(''N'', PyInt 3), (''county'', PyRef 4), (''x'', PyRef 2), (''y'', PyRef 0)],
      unpooled_fit = example_fit 0,
      unpooled_estimates = [(StrVal ''AITKIN'', Num 4), (StrVal ''ANOKA'', Num 2)],
      unpooled_se = [(StrVal ''AITKIN'', Num 1), (StrVal ''ANOKA'', Num 0)],
      order = [StrVal ''ANOKA'', StrVal ''AITKIN''],
      out7 = [(StrVal ''AITKIN'', Num 4), (StrVal ''ANOKA'', Num 2)],
      figure =
        [Scatter [0, 1] [Num 2, Num 4],
         Plot [0, 0] [Num 2, Num 2] ''b-'', Plot [1, 1] [Num 3, Num 5] ''b-'',
         Xlim (- 1) 86, Ylim (- 1) 4,
         Title ''Variation in county radon estimates'',
         Xlabel ''Ordered county'', Ylabel ''Radon estimate'']\<rparr>"

text \<open>The entries the steps of cell 1 leave in a log.\<close>

definition cell1_events :: "event list" where
  "cell1_events =
     [PylabInline, Import ''numpy'', Import ''pandas'', Import ''pystan'', Import ''seaborn'',
      ImportCleanData, SetContext ''notebook'']"

section \<open>Properties\<close>

subsection \<open>Sequences of steps\<close>

lemma and_then_Inr_iff:
  "and_then r f = Inr y \<longleftrightarrow> (\<exists>v. r = Inr v \<and> f v = Inr y)"
  by (cases r) (simp_all add: and_then_def)

lemma and_then_Inl_iff:
  "and_then r f = Inl e \<longleftrightarrow> r = Inl e \<or> (\<exists>v. r = Inr v \<and> f v = Inl e)"
  by (cases r) (simp_all add: and_then_def)

lemma next_step_Inr_iff:
  "next_step m f s = (Inr y, t) \<longleftrightarrow> (\<exists>v s'. m s = (Inr v, s') \<and> f v s' = (Inr y, t))"
  by (auto simp: next_step_def split: prod.splits sum.splits)

lemma next_step_Inl_iff:
  "next_step m f s = (Inl e, t) \<longleftrightarrow>
     m s = (Inl e, t) \<or> (\<exists>v s'. m s = (Inr v, s') \<and> f v s' = (Inl e, t))"
  by (auto simp: next_step_def split: prod.splits sum.splits)

lemma pure_step_iff: "pure_step r s = (x, t) \<longleftrightarrow> r = x \<and> s = t"
  by (auto simp: pure_step_def)

lemma cell1_Inr_iff:
  "cell1 w s = (Inr (h, cd), t) \<longleftrightarrow>
     (\<exists>s1 s2 s3 s4 s5 s6.
        pylab_inline w s = (Inr (), s1) \<and>
        import_module w ''numpy'' s1 = (Inr (), s2) \<and>
        import_module w ''pandas'' s2 = (Inr (), s3) \<and>
        import_module w ''pystan'' s3 = (Inr (), s4) \<and>
        import_module w ''seaborn'' s4 = (Inr (), s5) \<and>
        import_clean_data w s5 = (Inr (h, cd), s6) \<and>
        sns_set_context w ''notebook'' s6 = (Inr (), t))"
  by (simp add: cell1_def next_step_Inr_iff pure_step_iff)

lemma cell1_Inl_iff:
  "cell1 w s = (Inl e, t) \<longleftrightarrow>
     pylab_inline w s = (Inl e, t) \<or>
     (\<exists>s1. pylab_inline w s = (Inr (), s1) \<and>
        (import_module w ''numpy'' s1 = (Inl e, t) \<or>
         (\<exists>s2. import_module w ''numpy'' s1 = (Inr (), s2) \<and>
            (import_module w ''pandas'' s2 = (Inl e, t) \<or>
             (\<exists>s3. import_module w ''pandas'' s2 = (Inr (), s3) \<and>
                (import_module w ''pystan'' s3 = (Inl e, t) \<or>
                 (\<exists>s4. import_module w ''pystan'' s3 = (Inr (), s4) \<and>
                    (import_module w ''seaborn'' s4 = (Inl e, t) \<or>
                     (\<exists>s5. import_module w ''seaborn'' s4 = (Inr (), s5) \<and>
                        (import_clean_data w s5 = (Inl e, t) \<or>
                         (\<exists>loaded s6. import_clean_data w s5 = (Inr loaded, s6) \<and>
                            sns_set_context w ''notebook'' s6 = (Inl e, t))))))))))))"
  by (simp add: cell1_def next_step_Inl_iff pure_step_iff)

lemma run_Inr_iff:
  "run w s = (Inr r, t) \<longleftrightarrow>
     (\<exists>h cd s1 h' d fit est se out ord fig.
        cell1 w s = (Inr (h, cd), s1) \<and>
        map_data h cd = Inr (h', d) \<and>
        pystan_stan w (stan_args d) h' s1 = (Inr fit, t) \<and>
        post_sampling w h' cd fit = Inr (est, se, out, ord, fig) \<and>
        r = \<lparr>objects = h', clean_data = cd, unpooled_data_dict = d, unpooled_fit = fit,
             unpooled_estimates = est, unpooled_se = se, order = ord, out7 = out,
             figure = fig\<rparr>)"
  by (auto simp: run_def next_step_Inr_iff pure_step_iff)

lemma run_Inl_iff:
  "run w s = (Inl e, t) \<longleftrightarrow>
     cell1 w s = (Inl e, t) \<or>
     (\<exists>h cd s1. cell1 w s = (Inr (h, cd), s1) \<and>
        (map_data h cd = Inl e \<and> t = s1 \<or>
         (\<exists>h' d. map_data h cd = Inr (h', d) \<and>
            (pystan_stan w (stan_args d) h' s1 = (Inl e, t) \<or>
             (\<exists>fit. pystan_stan w (stan_args d) h' s1 = (Inr fit, t) \<and>
                post_sampling w h' cd fit = Inl e)))))"
  by (auto simp: run_def next_step_Inl_iff pure_step_iff)

subsection \<open>The data dictionary and the summaries\<close>

lemma wrap_in_range: "lowest t \<le> x \<Longrightarrow> x \<le> highest t \<Longrightarrow> wrap t x = x"
  by (simp add: wrap_def)

lemma dtype_holds_small: "lowest t \<le> 0 \<and> 127 \<le> highest t"
  by (cases t) simp_all

lemma wrap_small: "0 \<le> x \<Longrightarrow> x \<le> 127 \<Longrightarrow> wrap t x = x"
  using dtype_holds_small [of t] by (intro wrap_in_range) linarith+

lemma map_data_IntArray:
  assumes "cells h (county cd) = IntArray t cs"
  shows "map_data h cd =
           Inr (\<lparr>cells = (cells h)(free h := IntArray t (map (\<lambda>c. wrap t (c + 1)) cs)),
                 free = Suc (free h)\<rparr>,
                [(''N'', PyInt (int (len (cells h (log_radon cd))))),
                 (''county'', PyRef (free h)),
                 (''x'', PyRef (floor_measure cd)),
                 (''y'', PyRef (log_radon cd))])"
  using assms by (simp add: map_data_def and_then_def alloc_def)

lemma map_data_Inr:
  assumes "map_data h cd = Inr (h', d)"
  shows "\<exists>arr. np_add (cells h (county cd)) 1 = Inr arr \<and>
           h' = h\<lparr>cells := (cells h)(free h := arr), free := Suc (free h)\<rparr> \<and>
           d = [(''N'', PyInt (int (len (cells h (log_radon cd))))),
                (''county'', PyRef (free h)),
                (''x'', PyRef (floor_measure cd)),
                (''y'', PyRef (log_radon cd))]"
  using assms by (auto simp: map_data_def and_then_Inr_iff alloc_def Let_def)

lemma map_data_Inl_iff:
  "map_data h cd = Inl e \<longleftrightarrow> np_add (cells h (county cd)) 1 = Inl e"
  by (auto simp: map_data_def Let_def and_then_Inl_iff alloc_def)

lemma np_add_Inl_iff:
  "np_add arr k = Inl e \<longleftrightarrow> (\<exists>xs. arr = StrArray xs) \<and> e = TypeError"
  by (cases arr) auto

lemma length_mean0: "length (mean0 arr) = ncols arr"
  by (simp add: mean0_def)

lemma length_std0: "length (std0 arr) = ncols arr"
  by (simp add: std0_def)

lemma ncols_rows:
  "rows_of arr \<noteq> [] \<Longrightarrow> \<forall>row\<in>set (rows_of arr). length row = k \<Longrightarrow> ncols arr = k"
  by (cases arr) simp_all

lemma length_column: "length (column arr j) = length (rows_of arr)"
  by (simp add: column_def)

lemma sum_list_column:
  "sum_list (map f (column arr j)) = (\<Sum>i<length (rows_of arr). f (rows_of arr ! i ! j))"
proof -
  have "sum_list (map f (column arr j)) = sum_list (map (\<lambda>row. f (row ! j)) (rows_of arr))"
    by (simp add: column_def comp_def)
  also have "\<dots> = (\<Sum>i<length (rows_of arr). f (rows_of arr ! i ! j))"
    by (simp add: sum_list_sum_nth atLeast0LessThan)
  finally show ?thesis .
qed

lemma mean_column:
  assumes "rows_of arr \<noteq> []"
  shows "mean (column arr j) =
           Num ((\<Sum>i<length (rows_of arr). rows_of arr ! i ! j) / real (length (rows_of arr)))"
  using assms sum_list_column [of "\<lambda>x. x" arr j]
  by (simp add: mean_def column_def)

lemma std_column:
  assumes "rows_of arr \<noteq> []"
  shows "std (column arr j) =
           Num (sqrt ((\<Sum>i<length (rows_of arr).
                         (rows_of arr ! i ! j -
                          (\<Sum>i<length (rows_of arr). rows_of arr ! i ! j) /
                            real (length (rows_of arr))) ^ 2) /
                      real (length (rows_of arr))))"
proof -
  let ?m = "(\<Sum>i<length (rows_of arr). rows_of arr ! i ! j) / real (length (rows_of arr))"
  have ne: "column arr j \<noteq> []"
    using assms by (simp add: column_def)
  have m: "sum_list (column arr j) / real (length (rows_of arr)) = ?m"
    using sum_list_column [of "\<lambda>x. x" arr j] by simp
  have "sum_list (map (\<lambda>x. \<bar>x - ?m\<bar> ^ 2) (column arr j)) =
          (\<Sum>i<length (rows_of arr). (rows_of arr ! i ! j - ?m) ^ 2)"
    using sum_list_column [of "\<lambda>x. \<bar>x - ?m\<bar> ^ 2" arr j] by simp
  then show ?thesis
    using ne by (simp add: std_def m length_column)
qed

lemma mean_column_no_rows: "rows_of arr = [] \<Longrightarrow> mean (column arr j) = NaN"
  by (simp add: mean_def column_def)

lemma std_column_no_rows: "rows_of arr = [] \<Longrightarrow> std (column arr j) = NaN"
  by (simp add: std_def column_def)

lemma cell7_Inr:
  assumes "fit ''a'' = Inr arr"
      and "length (elems (cells h (mn_counties cd))) = ncols arr"
  shows "cell7 h cd fit =
           Inr (zip (elems (cells h (mn_counties cd))) (mean0 arr),
                zip (elems (cells h (mn_counties cd))) (std0 arr),
                head (zip (elems (cells h (mn_counties cd))) (mean0 arr)))"
  using assms by (simp add: cell7_def and_then_def pd_Series_def length_mean0 length_std0)

lemma cell7_Inl_iff:
  "cell7 h cd fit = Inl e \<longleftrightarrow>
     fit ''a'' = Inl e \<or>
     (\<exists>arr. fit ''a'' = Inr arr \<and>
        length (elems (cells h (mn_counties cd))) \<noteq> ncols arr \<and> e = ValueError)"
  by (auto simp: cell7_def and_then_Inl_iff pd_Series_def length_mean0 length_std0)

lemma cell7_Inr_iff:
  "cell7 h cd fit = Inr (est, se, out) \<longleftrightarrow>
     (\<exists>arr. fit ''a'' = Inr arr \<and>
        length (elems (cells h (mn_counties cd))) = ncols arr \<and>
        est = zip (elems (cells h (mn_counties cd))) (mean0 arr) \<and>
        se = zip (elems (cells h (mn_counties cd))) (std0 arr) \<and>
        out = take 5 est)"
  by (auto simp: cell7_def and_then_Inr_iff pd_Series_def length_mean0 length_std0 head_def)

lemma post_sampling_Inl_iff:
  "post_sampling w h cd fit = Inl e \<longleftrightarrow>
     cell7 h cd fit = Inl e \<or>
     (\<exists>est se out. cell7 h cd fit = Inr (est, se, out) \<and> cell8 w est se = Inl e)"
  by (auto simp: post_sampling_def and_then_Inl_iff)

lemma post_sampling_Inr_iff:
  "post_sampling w h cd fit = Inr (est, se, out, ord, fig) \<longleftrightarrow>
     cell7 h cd fit = Inr (est, se, out) \<and> cell8 w est se = Inr (ord, fig)"
  by (auto simp: post_sampling_def and_then_Inr_iff)

subsection \<open>Sorting and indexing by labels\<close>

lemma plot_bars_eq:
  "plot_bars fig rows =
     fig @ map (\<lambda>(i, m, se). Plot [i, i] [fsub m se, fadd m se] ''b-'') rows"
  by (induction fig rows rule: plot_bars.induct) simp_all

lemma map_of_row:
  assumes "distinct (map fst s)" and "i < length s"
  shows "map_of s (fst (s ! i)) = Some (snd (s ! i))"
  using assms by (simp add: map_of_eq_Some_iff [OF assms(1)])

lemma loc_rows_positions:
  assumes "distinct (map fst s)" and "\<forall>i\<in>set p. i < length s"
  shows "loc_rows s (map (\<lambda>i. fst (s ! i)) p) = Some (map (\<lambda>i. s ! i) p)"
  using assms(2)
proof (induction p)
  case Nil
  show ?case by simp
next
  case (Cons i p)
  then have "i < length s" and "loc_rows s (map (\<lambda>i. fst (s ! i)) p) = Some (map (\<lambda>i. s ! i) p)"
    by simp_all
  then show ?case
    using map_of_row [OF assms(1), of i] by simp
qed

lemma getitem_positions:
  assumes "distinct (index s)" and "\<forall>i\<in>set p. i < length s"
  shows "getitem w s (map (\<lambda>i. fst (s ! i)) p) = Inr (map (\<lambda>i. s ! i) p)"
  using assms loc_rows_positions [of s p] by (simp add: getitem_def index_def)

lemma sorting_permutation_set:
  assumes "sorting_permutation argsort"
  shows "set (argsort vs) = {0..<length vs}" and "length (argsort vs) = length vs"
proof -
  have m: "mset (argsort vs) = mset [0..<length vs]"
    using assms by (simp add: sorting_permutation_def)
  show "set (argsort vs) = {0..<length vs}"
    using mset_eq_setD [OF m] by simp
  show "length (argsort vs) = length vs"
    using mset_eq_length [OF m] by simp
qed

lemma sorting_permutation_Nil: "sorting_permutation argsort \<Longrightarrow> argsort [] = []"
  using sorting_permutation_set(2) [of argsort "[]"] by simp

lemma filter_positions: "map (\<lambda>i. vs ! i) (filter (\<lambda>i. P (vs ! i)) [0..<length vs]) = filter P vs"
proof -
  have "map (\<lambda>i. vs ! i) (filter (\<lambda>i. P (vs ! i)) [0..<length vs]) =
          filter P (map (\<lambda>i. vs ! i) [0..<length vs])"
    by (simp add: filter_map comp_def)
  then show ?thesis
    by (simp add: map_nth)
qed

lemma length_finite_values: "length (finite_values vs) = length (filter (\<lambda>v. \<not> is_nan v) vs)"
  by (induction vs) (auto simp: finite_values_def map_filter_simps split: float.splits)

lemma length_non_nan_idx:
  "length (filter (\<lambda>i. \<not> is_nan (vs ! i)) [0..<length vs]) = length (finite_values vs)"
  using arg_cong [OF filter_positions [of vs "\<lambda>v. \<not> is_nan v"], of length]
  by (simp add: length_finite_values)

lemma nargsort_perm:
  assumes "sorting_permutation argsort"
  shows "mset (nargsort argsort vs) = mset [0..<length vs]"
proof -
  let ?nn = "filter (\<lambda>i. \<not> is_nan (vs ! i)) [0..<length vs]"
  let ?na = "filter (\<lambda>i. is_nan (vs ! i)) [0..<length vs]"
  have "mset (argsort (finite_values vs)) = mset [0..<length ?nn]"
    using assms by (simp add: sorting_permutation_def length_non_nan_idx)
  then have "mset (map (\<lambda>k. ?nn ! k) (argsort (finite_values vs))) =
             mset (map (\<lambda>k. ?nn ! k) [0..<length ?nn])"
    by (metis mset_map)
  also have "\<dots> = mset ?nn"
    by (simp add: map_nth)
  finally have "mset (nargsort argsort vs) = mset ?nn + mset ?na"
    by (simp add: nargsort_def Let_def)
  also have "\<dots> = mset [0..<length vs]"
    unfolding mset_filter
    using multiset_partition [of "mset [0..<length vs]" "\<lambda>i. is_nan (vs ! i)"]
    by (simp only: union_commute [of "filter_mset (\<lambda>i. \<not> is_nan (vs ! i)) _"])
  finally show ?thesis .
qed

lemma nargsort_set:
  assumes "sorting_permutation argsort"
  shows "set (nargsort argsort vs) = {0..<length vs}"
    and "length (nargsort argsort vs) = length vs"
  using mset_eq_setD [OF nargsort_perm [OF assms, of vs]]
    mset_eq_length [OF nargsort_perm [OF assms, of vs]]
  by simp_all

lemma finite_values_Num: "finite_values (map Num rs) = rs"
  by (induction rs) (simp_all add: finite_values_def map_filter_simps)

lemma nargsort_all_num:
  assumes "sorting_permutation argsort"
  shows "nargsort argsort (map Num rs) = argsort rs"
proof -
  have nn: "filter (\<lambda>i. \<not> is_nan (map Num rs ! i)) [0..<length rs] = [0..<length rs]"
    by (rule filter_True) simp
  have na: "filter (\<lambda>i. is_nan (map Num rs ! i)) [0..<length rs] = []"
    by (simp add: filter_empty_conv)
  have "map (\<lambda>k. [0..<length rs] ! k) (argsort rs) = map (\<lambda>k. k) (argsort rs)"
    using sorting_permutation_set(1) [OF assms, of rs] by (intro map_cong) simp_all
  then show ?thesis
    by (simp add: nargsort_def Let_def nn na finite_values_Num)
qed

lemma finite_values_all_nan: "\<forall>v\<in>set vs. is_nan v \<Longrightarrow> finite_values vs = []"
  by (induction vs) (auto simp: finite_values_def map_filter_simps split: float.splits)

lemma nargsort_all_nan:
  assumes "sorting_permutation argsort" and "\<forall>v\<in>set vs. is_nan v"
  shows "nargsort argsort vs = [0..<length vs]"
proof -
  have na: "filter (\<lambda>i. is_nan (vs ! i)) [0..<length vs] = [0..<length vs]"
    using assms(2) by (intro filter_True) simp
  show ?thesis
    using assms by (simp add: nargsort_def Let_def na finite_values_all_nan
        sorting_permutation_Nil)
qed

lemma cell8_Inr:
  assumes sp: "sorting_permutation (np_argsort w)"
      and d: "distinct (index est)"
      and same: "index se = index est"
  shows "cell8 w est se =
           Inr (map (\<lambda>c. fst (est ! c)) (nargsort (np_argsort w) (values_of est)),
                Scatter [0..<length est]
                  (map (\<lambda>c. snd (est ! c)) (nargsort (np_argsort w) (values_of est))) #
                map (\<lambda>i. Plot [i, i]
                            [fsub (snd (est ! (nargsort (np_argsort w) (values_of est) ! i)))
                                  (snd (se ! (nargsort (np_argsort w) (values_of est) ! i))),
                             fadd (snd (est ! (nargsort (np_argsort w) (values_of est) ! i)))
                                  (snd (se ! (nargsort (np_argsort w) (values_of est) ! i)))]
                            ''b-'')
                  [0..<length est] @
                [Xlim (- 1) 86, Ylim (- 1) 4,
                 Title ''Variation in county radon estimates'',
                 Xlabel ''Ordered county'',
                 Ylabel ''Radon estimate''])"
proof -
  let ?p = "nargsort (np_argsort w) (values_of est)"
  let ?n = "length est"
  have lv: "length (values_of est) = ?n"
    by (simp add: values_of_def)
  have setp: "set ?p = {0..<?n}" and lenp: "length ?p = ?n"
    using nargsort_set [OF sp, of "values_of est"] lv by simp_all
  have len_se: "length se = ?n"
    using same by (metis index_def length_map)
  have fst_se: "fst (se ! c) = fst (est ! c)" if "c < ?n" for c
    using that same len_se by (metis index_def nth_map)
  have inr: "\<forall>i\<in>set ?p. i < length est" "\<forall>i\<in>set ?p. i < length se"
    using setp len_se by simp_all
  have ord: "index (sort_values (np_argsort w) est) = map (\<lambda>c. fst (est ! c)) ?p"
    by (simp add: index_def sort_values_def comp_def)
  have ord_se: "map (\<lambda>c. fst (est ! c)) ?p = map (\<lambda>c. fst (se ! c)) ?p"
    using fst_se setp by simp
  have g1: "getitem w est (map (\<lambda>c. fst (est ! c)) ?p) = Inr (map (\<lambda>i. est ! i) ?p)"
    by (rule getitem_positions [OF d inr(1)])
  have "getitem w se (map (\<lambda>c. fst (se ! c)) ?p) = Inr (map (\<lambda>i. se ! i) ?p)"
    using d same by (intro getitem_positions [OF _ inr(2)]) simp
  then have g2: "getitem w se (map (\<lambda>c. fst (est ! c)) ?p) = Inr (map (\<lambda>i. se ! i) ?p)"
    by (simp only: ord_se)
  have sc: "plt_scatter [] [0..<?n] (values_of (map (\<lambda>i. est ! i) ?p)) =
              Inr [Scatter [0..<?n] (map (\<lambda>c. snd (est ! c)) ?p)]"
    using lenp by (simp add: plt_scatter_def values_of_def comp_def)
  have bars: "map (\<lambda>(i, m, se). Plot [i, i] [fsub m se, fadd m se] ''b-'')
                (zip3 [0..<?n] (values_of (map (\<lambda>i. est ! i) ?p))
                   (values_of (map (\<lambda>i. se ! i) ?p))) =
              map (\<lambda>i. Plot [i, i]
                          [fsub (snd (est ! (?p ! i))) (snd (se ! (?p ! i))),
                           fadd (snd (est ! (?p ! i))) (snd (se ! (?p ! i)))] ''b-'')
                [0..<?n]"
    using lenp by (intro nth_equalityI) (simp_all add: zip3_def values_of_def)
  show ?thesis
    using bars by (simp add: cell8_def Let_def ord g1 g2 sc and_then_def plot_bars_eq)
qed

lemma sorting_permutation_insertion: "sorting_permutation insertion_argsort"
  unfolding sorting_permutation_def insertion_argsort_def
  by (simp add: sorted_sort_key)

subsection \<open>The model text, the data dictionary and the dataset\<close>

lemma example_names:
  "elems (cells example_heap (mn_counties example_module)) = [StrVal ''AITKIN'', StrVal ''ANOKA'']"
  by (simp add: example_heap_def example_module_def)

lemma example_allocated: "allocated example_heap example_module"
  by (simp add: allocated_def example_heap_def example_module_def)

lemma example_cell1: "cell1 example_world s = (Inr (example_heap, example_module), s)"
  by (simp add: cell1_def example_world_def next_step_def pure_step_def)

lemma example_map_data:
  "map_data example_heap example_module =
     Inr (\<lparr>cells = (cells example_heap)(4 := IntArray Int64 [1, 2, 2]), free = 5\<rparr>,
          [(''N'', PyInt 3), (''county'', PyRef 4), (''x'', PyRef 2), (''y'', PyRef 0)])"
  by (simp add: map_data_def and_then_def alloc_def example_heap_def example_module_def
      len_def wrap_def)

text \<open>
  C3. The \<^verbatim>\<open>model_code\<close> argument of the sampler call is the concatenation of the
  data block, the parameters block, the transformed-parameters block and the model block,
  in this order and with nothing between them. Read line by line, the text declares the
  data \<open>N\<close>, \<open>county\<close>, \<open>x\<close>, \<open>y\<close>, the parameters \<open>a\<close>, \<open>beta\<close>, \<open>sigma\<close>, the
  transformed parameter \<open>y_hat[i]\<close> as \<open>beta * x[i] + a[county[i]]\<close> for \<open>i\<close> from 1 to
  \<open>N\<close>, and the likelihood \<open>y ~ normal(y_hat, sigma)\<close>.
\<close>

theorem model_code_is_the_concatenation:
  "model_code (stan_args d) =
     unpooled_data @ unpooled_parameters @ unpooled_transformed_parameters @ unpooled_model
   \<and> split_lines (model_code (stan_args d)) =
     ['''',
      ''data {'',
      ''  int<lower=0> N;'',
      ''  int<lower=1, upper=85> county[N];'',
      ''  vector[N] x;'',
      ''  vector[N] y;'',
      ''}'',
      '''',
      ''parameters {'',
      ''  vector[85] a;'',
      ''  real beta;'',
      ''  real<lower=0, upper=100> sigma;'',
      ''}'',
      '''',
      ''transformed parameters {'',
      ''  vector[N] y_hat;'',
      ''  '',
      ''  for (i in 1:N)'',
      ''    y_hat[i] <- beta * x[i] + a[county[i]];'',
      ''}'',
      '''',
      ''model {'',
      ''  y ~ normal(y_hat, sigma);'',
      ''}'',
      '''']"
  by (simp add: stan_args_def unpooled_data_def unpooled_parameters_def
      unpooled_transformed_parameters_def unpooled_model_def)

text \<open>
  C5. The dictionary built in cell 6 fits the data block it is sent with. Its \<open>N\<close> is the
  length of the array bound to \<open>y\<close> (\<^verbatim>\<open>clean_data.log_radon\<close>), and its \<open>county\<close>
  is a new array of the element type of \<^verbatim>\<open>clean_data.county\<close>, holding each entry
  plus one as that element type computes it, with wrap-around. When every entry of
  \<^verbatim>\<open>clean_data.county\<close> lies between 0 and 84, nothing wraps: the new array holds
  the entries plus one, every entry sent lies in the declared bounds 1 to 85, and the
  access \<^verbatim>\<open>a[county[i]]\<close> of the transformed-parameters block, for a vector \<open>a\<close> of
  length 85 and any \<open>i\<close> from 1 on, is inside \<open>a\<close> whenever \<open>i\<close> is inside the array
  \<open>county\<close>: it reads the entry of \<open>a\<close> at the Python position of the county. Past the
  end of \<open>county\<close> it is the indexing of \<open>county\<close> that fails.
\<close>

theorem data_dict_consistent:
  assumes "allocated h cd"
      and "cells h (county cd) = IntArray t cs"
  shows "\<exists>h' d p.
           map_data h cd = Inr (h', d) \<and>
           map_of d ''N'' = Some (PyInt (int (len (cells h' (log_radon cd))))) \<and>
           map_of d ''y'' = Some (PyRef (log_radon cd)) \<and>
           map_of d ''county'' = Some (PyRef p) \<and>
           cells h' p = IntArray t (map (\<lambda>c. wrap t (c + 1)) cs) \<and>
           ((\<forall>c\<in>set cs. 0 \<le> c \<and> c \<le> 84) \<longrightarrow>
              cells h' p = IntArray t (map (\<lambda>c. c + 1) cs) \<and>
              (\<forall>c\<in>set (map (\<lambda>c. c + 1) cs). in_declared_bounds c) \<and>
              (\<forall>a i. length a = 85 \<longrightarrow> 1 \<le> i \<longrightarrow>
                 a_county a (map (\<lambda>c. c + 1) cs) i =
                   (if i \<le> int (length cs) then Inr (a ! nat (cs ! nat (i - 1)))
                    else Inl IndexError)))"
proof -
  let ?cs' = "map (\<lambda>c. c + 1) cs"
  let ?w = "map (\<lambda>c. wrap t (c + 1)) cs"
  let ?h' = "\<lparr>cells = (cells h)(free h := IntArray t ?w), free = Suc (free h)\<rparr>"
  let ?d = "[(''N'', PyInt (int (len (cells h (log_radon cd))))),
             (''county'', PyRef (free h)),
             (''x'', PyRef (floor_measure cd)),
             (''y'', PyRef (log_radon cd))]"
  have md: "map_data h cd = Inr (?h', ?d)"
    by (rule map_data_IntArray [OF assms(2)])
  have ne: "log_radon cd \<noteq> free h"
    using assms(1) by (simp add: allocated_def)
  have n: "map_of ?d ''N'' = Some (PyInt (int (len (cells ?h' (log_radon cd)))))"
    using ne by simp
  have y: "map_of ?d ''y'' = Some (PyRef (log_radon cd))"
    by simp
  have c: "map_of ?d ''county'' = Some (PyRef (free h))"
    by simp
  have arr: "cells ?h' (free h) = IntArray t ?w"
    by simp
  have rest: "cells ?h' (free h) = IntArray t ?cs' \<and>
              (\<forall>c\<in>set ?cs'. in_declared_bounds c) \<and>
              (\<forall>a i. length a = 85 \<longrightarrow> 1 \<le> i \<longrightarrow>
                 a_county a ?cs' i =
                   (if i \<le> int (length cs) then Inr (a ! nat (cs ! nat (i - 1)))
                    else Inl IndexError))"
    if range: "\<forall>c\<in>set cs. 0 \<le> c \<and> c \<le> 84"
  proof (intro conjI allI impI)
    have "?w = ?cs'"
      using range by (intro map_cong refl wrap_small) auto
    then show "cells ?h' (free h) = IntArray t ?cs'"
      by simp
  next
    show "\<forall>c\<in>set ?cs'. in_declared_bounds c"
      using range by (auto simp: in_declared_bounds_def)
  next
    fix a :: "real list" and i :: int
    assume a: "length a = 85" and i: "1 \<le> i"
    show "a_county a ?cs' i =
            (if i \<le> int (length cs) then Inr (a ! nat (cs ! nat (i - 1)))
             else Inl IndexError)"
    proof (cases "i \<le> int (length cs)")
      case True
      have pos: "nat (i - 1) < length cs"
        using i True by linarith
      then have mem: "cs ! nat (i - 1) \<in> set cs"
        by simp
      have ci: "stan_index ?cs' i = Inr (cs ! nat (i - 1) + 1)"
        using i True pos by (simp add: stan_index_def)
      have "0 \<le> cs ! nat (i - 1)" "cs ! nat (i - 1) \<le> 84"
        using range mem by blast+
      then have "stan_index a (cs ! nat (i - 1) + 1) = Inr (a ! nat (cs ! nat (i - 1)))"
        using a by (simp add: stan_index_def)
      with ci True show ?thesis
        by (simp add: a_county_def and_then_def)
    next
      case False
      then show ?thesis
        by (simp add: a_county_def and_then_def stan_index_def)
    qed
  qed
  show ?thesis
    using md n y c arr rest by blast
qed

text \<open>
  An array of 8-bit integers with the entries 0, 84 and 3: the largest entry sent is 85.
\<close>

theorem data_dict_consistent_witness:
  "allocated (example_heap\<lparr>cells := (cells example_heap)(1 := IntArray Int8 [0, 84, 3])\<rparr>)
     example_module \<and>
   list_all (\<lambda>c. 0 \<le> c \<and> c \<le> 84) [0, 84, 3 :: int] \<and>
   (\<exists>h' d. map_data (example_heap\<lparr>cells := (cells example_heap)(1 := IntArray Int8 [0, 84, 3])\<rparr>)
              example_module = Inr (h', d) \<and>
            map_of d ''N'' = Some (PyInt 3) \<and>
            map_of d ''county'' = Some (PyRef 4) \<and>
            cells h' 4 = IntArray Int8 [1, 85, 4]) \<and>
   list_all in_declared_bounds [1, 85, 4] \<and>
   a_county (replicate 84 0 @ [7]) [1, 85, 4] 2 = Inr 7 \<and>
   a_county (replicate 84 0 @ [7]) [1, 85, 4] 4 = Inl IndexError"
proof -
  let ?h = "example_heap\<lparr>cells := (cells example_heap)(1 := IntArray Int8 [0, 84, 3])\<rparr>"
  have al: "allocated ?h example_module"
    by (simp add: allocated_def example_heap_def example_module_def)
  have ca: "cells ?h (county example_module) = IntArray Int8 [0, 84, 3]"
    by (simp add: example_module_def)
  have range: "\<forall>c\<in>set [0, 84, 3 :: int]. 0 \<le> c \<and> c \<le> 84"
    by simp
  from data_dict_consistent [OF al ca] obtain h' d p where
    md: "map_data ?h example_module = Inr (h', d)" and
    n: "map_of d ''N'' = Some (PyInt (int (len (cells h' (log_radon example_module)))))" and
    c: "map_of d ''county'' = Some (PyRef p)" and
    imp: "(\<forall>c\<in>set [0, 84, 3 :: int]. 0 \<le> c \<and> c \<le> 84) \<longrightarrow>
          cells h' p = IntArray Int8 (map (\<lambda>c. c + 1) [0, 84, 3]) \<and>
          (\<forall>c\<in>set (map (\<lambda>c. c + 1) [0, 84, 3]). in_declared_bounds c) \<and>
          (\<forall>a i. length a = 85 \<longrightarrow> 1 \<le> i \<longrightarrow>
             a_county a (map (\<lambda>c. c + 1) [0, 84, 3]) i =
               (if i \<le> int (length [0, 84, 3 :: int])
                then Inr (a ! nat ([0, 84, 3] ! nat (i - 1))) else Inl IndexError))"
    by blast
  have "map_data ?h example_module =
          Inr (\<lparr>cells = (cells ?h)(4 := IntArray Int8 [1, 85, 4]), free = 5\<rparr>,
               [(''N'', PyInt 3), (''county'', PyRef 4), (''x'', PyRef 2), (''y'', PyRef 0)])"
    by (simp add: map_data_def and_then_def alloc_def example_heap_def example_module_def
        len_def wrap_def)
  with md have h': "h' = \<lparr>cells = (cells ?h)(4 := IntArray Int8 [1, 85, 4]), free = 5\<rparr>"
    and d: "d = [(''N'', PyInt 3), (''county'', PyRef 4), (''x'', PyRef 2), (''y'', PyRef 0)]"
    by simp_all
  from imp range have
    arr: "cells h' p = IntArray Int8 (map (\<lambda>c. c + 1) [0, 84, 3])" and
    b: "\<forall>c\<in>set (map (\<lambda>c. c + 1) [0, 84, 3 :: int]). in_declared_bounds c" and
    acc: "\<forall>a i. length a = 85 \<longrightarrow> 1 \<le> i \<longrightarrow>
             a_county a (map (\<lambda>c. c + 1) [0, 84, 3]) i =
               (if i \<le> int (length [0, 84, 3 :: int])
                then Inr (a ! nat ([0, 84, 3] ! nat (i - 1))) else Inl IndexError)"
    by blast+
  have "a_county (replicate 84 0 @ [7]) (map (\<lambda>c. c + 1) [0, 84, 3]) 2 =
          Inr ((replicate 84 0 @ [7]) ! nat ([0, 84, 3] ! nat (2 - 1)))"
    using acc by simp
  then have a7: "a_county (replicate 84 0 @ [7]) [1, 85, 4] 2 = Inr 7"
    by (simp add: nth_append)
  have "a_county (replicate 84 0 @ [7]) (map (\<lambda>c. c + 1) [0, 84, 3]) 4 = Inl IndexError"
    using acc by simp
  then have a4: "a_county (replicate 84 0 @ [7]) [1, 85, 4] 4 = Inl IndexError"
    by simp
  have lb: "list_all in_declared_bounds [1, 85, 4]"
    using b by simp
  from c arr have p4: "p = 4"
    unfolding h' d by simp
  show ?thesis
    using al md n c arr a7 a4 lb unfolding h' d p4 by simp
qed

text \<open>
  C6. The dataset stays as it was loaded. After a run, the module \<^verbatim>\<open>clean_data\<close> has
  the attributes it was imported with, every array that existed at the import is unchanged
  (in particular the four arrays \<open>log_radon\<close>, \<open>county\<close>, \<open>floor_measure\<close>,
  \<open>mn_counties\<close>), and the \<open>county\<close> entry of the dictionary refers to a new array, at
  an address that was free before, holding \<^verbatim>\<open>clean_data.county + 1\<close>; that new array
  is the only change to the store. The entries \<open>x\<close> and \<open>y\<close> refer to the dataset's own
  arrays.
\<close>

theorem clean_data_left_unchanged:
  assumes "cell1 w s = (Inr (h, cd), s1)"
      and "allocated h cd"
      and "run w s = (Inr r, t)"
  shows "clean_data r = cd \<and>
         (\<forall>p. p < free h \<longrightarrow> cells (objects r) p = cells h p) \<and>
         cells (objects r) (log_radon cd) = cells h (log_radon cd) \<and>
         cells (objects r) (county cd) = cells h (county cd) \<and>
         cells (objects r) (floor_measure cd) = cells h (floor_measure cd) \<and>
         cells (objects r) (mn_counties cd) = cells h (mn_counties cd) \<and>
         (\<exists>p arr. map_of (unpooled_data_dict r) ''county'' = Some (PyRef p) \<and>
                  p = free h \<and> p \<noteq> county cd \<and>
                  np_add (cells h (county cd)) 1 = Inr arr \<and>
                  cells (objects r) = (cells h)(p := arr)) \<and>
         map_of (unpooled_data_dict r) ''x'' = Some (PyRef (floor_measure cd)) \<and>
         map_of (unpooled_data_dict r) ''y'' = Some (PyRef (log_radon cd))"
proof -
  from assms(3) obtain h0 cd0 s0 h' d where
    imp: "cell1 w s = (Inr (h0, cd0), s0)" and
    md: "map_data h0 cd0 = Inr (h', d)" and
    r: "objects r = h'" "clean_data r = cd0" "unpooled_data_dict r = d"
    unfolding run_Inr_iff by auto
  from imp assms(1) have eq: "h0 = h" "cd0 = cd"
    by simp_all
  from map_data_Inr [OF md] eq obtain arr where
    add: "np_add (cells h (county cd)) 1 = Inr arr" and
    h': "h' = h\<lparr>cells := (cells h)(free h := arr), free := Suc (free h)\<rparr>" and
    d: "d = [(''N'', PyInt (int (len (cells h (log_radon cd))))),
             (''county'', PyRef (free h)),
             (''x'', PyRef (floor_measure cd)),
             (''y'', PyRef (log_radon cd))]"
    by auto
  have below: "log_radon cd < free h" "county cd < free h"
    "floor_measure cd < free h" "mn_counties cd < free h"
    using assms(2) by (simp_all add: allocated_def)
  have frame: "\<forall>p. p < free h \<longrightarrow> cells (objects r) p = cells h p"
    by (simp add: r h')
  have new: "\<exists>p arr. map_of (unpooled_data_dict r) ''county'' = Some (PyRef p) \<and>
                  p = free h \<and> p \<noteq> county cd \<and>
                  np_add (cells h (county cd)) 1 = Inr arr \<and>
                  cells (objects r) = (cells h)(p := arr)"
    using add below(2) by (simp add: r h' d)
  have xy: "map_of (unpooled_data_dict r) ''x'' = Some (PyRef (floor_measure cd))"
    "map_of (unpooled_data_dict r) ''y'' = Some (PyRef (log_radon cd))"
    by (simp_all add: r d)
  show ?thesis
    using frame below new xy r(2) eq(2) by simp
qed

lemma example_fit_a: "example_fit 0 ''a'' = Inr (Rows [5, 2] [[3, 2]])"
  by (simp add: example_fit_def)

lemma example_cell7:
  "cell7 h example_module (example_fit 0) =
     and_then (pd_Series [Num 4, Num 2] (elems (cells h 3))) (\<lambda>est.
     and_then (pd_Series [Num 1, Num 0] (elems (cells h 3))) (\<lambda>se.
       Inr (est, se, head est)))"
  by (simp add: cell7_def and_then_def example_fit_a example_module_def mean0_def
      std0_def column_def mean_def std_def)

lemma example_post_sampling:
  "post_sampling example_world
     \<lparr>cells = (cells example_heap)(4 := IntArray Int64 [1, 2, 2]), free = 5\<rparr>
     example_module (example_fit 0) =
     Inr ([(StrVal ''AITKIN'', Num 4), (StrVal ''ANOKA'', Num 2)],
          [(StrVal ''AITKIN'', Num 1), (StrVal ''ANOKA'', Num 0)],
          [(StrVal ''AITKIN'', Num 4), (StrVal ''ANOKA'', Num 2)],
          [StrVal ''ANOKA'', StrVal ''AITKIN''],
          [Scatter [0, 1] [Num 2, Num 4],
           Plot [0, 0] [Num 2, Num 2] ''b-'', Plot [1, 1] [Num 3, Num 5] ''b-'',
           Xlim (- 1) 86, Ylim (- 1) 4,
           Title ''Variation in county radon estimates'',
           Xlabel ''Ordered county'', Ylabel ''Radon estimate''])"
  by (simp add: post_sampling_def example_cell7 and_then_def cell8_def example_world_def
      example_heap_def pd_Series_def head_def index_def values_of_def sort_values_def
      nargsort_def finite_values_def map_filter_simps insertion_argsort_def getitem_def
      plt_scatter_def zip3_def)

lemma example_run: "run example_world 0 = (Inr example_result, 1)"
proof -
  have st: "pystan_stan example_world c h 0 = (Inr (example_fit 0), 1)" for c h
    by (simp add: example_world_def)
  show ?thesis
    by (simp add: run_def next_step_def pure_step_def example_cell1 example_map_data st
        example_post_sampling example_result_def)
qed

theorem clean_data_left_unchanged_witness:
  "cell1 example_world 0 = (Inr (example_heap, example_module), 0) \<and>
   allocated example_heap example_module \<and>
   run example_world 0 = (Inr example_result, 1) \<and>
   clean_data example_result = example_module \<and>
   cells (objects example_result) (county example_module) = IntArray Int64 [0, 1, 1] \<and>
   map_of (unpooled_data_dict example_result) ''county'' = Some (PyRef 4) \<and>
   cells (objects example_result) 4 = IntArray Int64 [1, 2, 2]"
proof -
  have i: "cell1 example_world 0 = (Inr (example_heap, example_module), 0)"
    by (rule example_cell1)
  have a: "allocated example_heap example_module"
    by (rule example_allocated)
  have r: "run example_world 0 = (Inr example_result, 1)"
    by (rule example_run)
  have c: "cells example_heap (county example_module) = IntArray Int64 [0, 1, 1]"
    by (simp add: example_heap_def example_module_def)
  from clean_data_left_unchanged [OF i a r] have
    "clean_data example_result = example_module" and
    "cells (objects example_result) (county example_module) =
       cells example_heap (county example_module)"
    by blast+
  moreover have "map_of (unpooled_data_dict example_result) ''county'' = Some (PyRef 4)"
    "cells (objects example_result) 4 = IntArray Int64 [1, 2, 2]"
    by (simp_all add: example_result_def)
  ultimately show ?thesis
    using i a r c by simp
qed

text \<open>
  C2. With \<open>k\<close> counties (85 in the dataset), a fit whose array \<^verbatim>\<open>unpooled_fit['a']\<close>
  has at least one row and \<open>k\<close> columns, and \<open>k\<close> county names: for every county \<open>j\<close>
  from 1 to \<open>k\<close> (counted from one, so at position \<open>j - 1\<close> of the Python arrays), the
  row of \<^verbatim>\<open>unpooled_estimates\<close> for the county is labelled by its name in
  \<^verbatim>\<open>clean_data.mn_counties\<close> and holds the arithmetic mean of the county's column over
  the draws, and the row of \<^verbatim>\<open>unpooled_se\<close> carries the same label and holds the
  standard deviation of the same column over the draws (the square root of the mean squared
  deviation from that mean). Cell 7 displays the first five rows of the estimates.
\<close>

theorem per_county_summaries:
  assumes "fit ''a'' = Inr arr"
      and "rows_of arr \<noteq> []"
      and "\<forall>row\<in>set (rows_of arr). length row = k"
      and "length (elems (cells h (mn_counties cd))) = k"
  shows "\<exists>est se.
           cell7 h cd fit = Inr (est, se, take 5 est) \<and>
           length est = k \<and> length se = k \<and>
           (\<forall>j\<in>{1..k}.
              est ! (j - 1) =
                (elems (cells h (mn_counties cd)) ! (j - 1),
                 Num ((\<Sum>i<length (rows_of arr). rows_of arr ! i ! (j - 1)) /
                      real (length (rows_of arr)))) \<and>
              se ! (j - 1) =
                (elems (cells h (mn_counties cd)) ! (j - 1),
                 Num (sqrt ((\<Sum>i<length (rows_of arr).
                               (rows_of arr ! i ! (j - 1) -
                                (\<Sum>i<length (rows_of arr). rows_of arr ! i ! (j - 1)) /
                                  real (length (rows_of arr))) ^ 2) /
                            real (length (rows_of arr))))))"
proof -
  let ?names = "elems (cells h (mn_counties cd))"
  let ?est = "zip ?names (mean0 arr)" and ?se = "zip ?names (std0 arr)"
  have k: "ncols arr = k"
    using assms(2,3) by (rule ncols_rows)
  have run7: "cell7 h cd fit = Inr (?est, ?se, take 5 ?est)"
    using cell7_Inr [of fit arr h cd] assms(1,4) k by (simp add: head_def)
  have len: "length ?est = k" "length ?se = k"
    using assms(4) k by (simp_all add: length_mean0 length_std0)
  have rows: "?est ! c = (?names ! c, mean (column arr c)) \<and>
              ?se ! c = (?names ! c, std (column arr c))"
    if "c < k" for c
    using that assms(4) k by (simp add: mean0_def std0_def)
  have "\<forall>j\<in>{1..k}.
          ?est ! (j - 1) =
            (?names ! (j - 1),
             Num ((\<Sum>i<length (rows_of arr). rows_of arr ! i ! (j - 1)) /
                  real (length (rows_of arr)))) \<and>
          ?se ! (j - 1) =
            (?names ! (j - 1),
             Num (sqrt ((\<Sum>i<length (rows_of arr).
                           (rows_of arr ! i ! (j - 1) -
                            (\<Sum>i<length (rows_of arr). rows_of arr ! i ! (j - 1)) /
                              real (length (rows_of arr))) ^ 2) /
                        real (length (rows_of arr)))))"
  proof
    fix j assume "j \<in> {1..k}"
    then have "j - 1 < k" by auto
    from rows [OF this] show
      "?est ! (j - 1) =
            (?names ! (j - 1),
             Num ((\<Sum>i<length (rows_of arr). rows_of arr ! i ! (j - 1)) /
                  real (length (rows_of arr)))) \<and>
          ?se ! (j - 1) =
            (?names ! (j - 1),
             Num (sqrt ((\<Sum>i<length (rows_of arr).
                           (rows_of arr ! i ! (j - 1) -
                            (\<Sum>i<length (rows_of arr). rows_of arr ! i ! (j - 1)) /
                              real (length (rows_of arr))) ^ 2) /
                        real (length (rows_of arr)))))"
      by (simp only: mean_column [OF assms(2)] std_column [OF assms(2)])
  qed
  with run7 len show ?thesis
    by blast
qed

theorem per_county_summaries_witness:
  "example_fit 0 ''a'' = Inr (Rows [5, 2] [[3, 2]]) \<and>
   list_all (\<lambda>row. length row = 2) (rows_of (Rows [5, 2] [[3, 2]])) \<and>
   length (elems (cells example_heap (mn_counties example_module))) = 2 \<and>
   (\<exists>est se.
      cell7 example_heap example_module (example_fit 0) = Inr (est, se, take 5 est) \<and>
      est ! 0 = (StrVal ''AITKIN'', Num ((5 + 3) / 2)) \<and>
      se ! 0 = (StrVal ''AITKIN'', Num (sqrt (((5 - 4)\<^sup>2 + (3 - 4)\<^sup>2) / 2))) \<and>
      est ! 1 = (StrVal ''ANOKA'', Num ((2 + 2) / 2)) \<and>
      se ! 1 = (StrVal ''ANOKA'', Num (sqrt (((2 - 2)\<^sup>2 + (2 - 2)\<^sup>2) / 2))))"
proof -
  let ?arr = "Rows [5, 2] [[3, 2]]"
  have a: "example_fit 0 ''a'' = Inr ?arr"
    by (rule example_fit_a)
  have ne: "rows_of ?arr \<noteq> []"
    by simp
  have rect: "\<forall>row\<in>set (rows_of ?arr). length row = 2"
    by simp
  have names: "length (elems (cells example_heap (mn_counties example_module))) = 2"
    by (simp add: example_names)
  from per_county_summaries [where fit = "example_fit 0", OF a ne rect names]
  obtain est se where
    c7: "cell7 example_heap example_module (example_fit 0) = Inr (est, se, take 5 est)" and
    rows: "\<forall>j\<in>{1..2}.
      est ! (j - 1) =
        (elems (cells example_heap (mn_counties example_module)) ! (j - 1),
         Num ((\<Sum>i<length (rows_of ?arr). rows_of ?arr ! i ! (j - 1)) /
              real (length (rows_of ?arr)))) \<and>
      se ! (j - 1) =
        (elems (cells example_heap (mn_counties example_module)) ! (j - 1),
         Num (sqrt ((\<Sum>i<length (rows_of ?arr).
                       (rows_of ?arr ! i ! (j - 1) -
                        (\<Sum>i<length (rows_of ?arr). rows_of ?arr ! i ! (j - 1)) /
                          real (length (rows_of ?arr))) ^ 2) /
                    real (length (rows_of ?arr)))))"
    by blast
  have two: "{..<2::nat} = {0, 1}"
    by auto
  from rows have r1:
    "est ! 0 = (StrVal ''AITKIN'', Num ((5 + 3) / 2))"
    "se ! 0 = (StrVal ''AITKIN'', Num (sqrt (((5 - 4)\<^sup>2 + (3 - 4)\<^sup>2) / 2)))"
    by (auto dest!: bspec [where x = 1] simp: example_names two)
  from rows have r2:
    "est ! 1 = (StrVal ''ANOKA'', Num ((2 + 2) / 2))"
    "se ! 1 = (StrVal ''ANOKA'', Num (sqrt (((2 - 2)\<^sup>2 + (2 - 2)\<^sup>2) / 2)))"
    by (auto dest!: bspec [where x = 2] simp: example_names two)
  show ?thesis
    using a names c7 r1 r2 by auto
qed

subsection \<open>The plot\<close>

lemma mean0_rows:
  assumes "rows_of arr \<noteq> []"
  shows "mean0 arr =
           map Num (map (\<lambda>j. (\<Sum>i<length (rows_of arr). rows_of arr ! i ! j) /
                               real (length (rows_of arr))) [0..<ncols arr])"
  by (simp add: mean0_def mean_column [OF assms] comp_def)

lemma std0_rows:
  assumes "rows_of arr \<noteq> []"
  shows "std0 arr =
           map Num (map (\<lambda>j. sqrt ((\<Sum>i<length (rows_of arr).
                                        (rows_of arr ! i ! j -
                                         (\<Sum>i<length (rows_of arr). rows_of arr ! i ! j) /
                                           real (length (rows_of arr))) ^ 2) /
                                     real (length (rows_of arr)))) [0..<ncols arr])"
  by (simp add: std0_def std_column [OF assms] comp_def)

lemma mean0_no_rows: "rows_of arr = [] \<Longrightarrow> mean0 arr = replicate (ncols arr) NaN"
  by (simp add: mean0_def mean_column_no_rows map_replicate_const)

lemma std0_no_rows: "rows_of arr = [] \<Longrightarrow> std0 arr = replicate (ncols arr) NaN"
  by (simp add: std0_def std_column_no_rows map_replicate_const)

lemma post_sampling_Inr:
  assumes "fit ''a'' = Inr arr"
      and "length (elems (cells h (mn_counties cd))) = ncols arr"
      and "cell8 w (zip (elems (cells h (mn_counties cd))) (mean0 arr))
                   (zip (elems (cells h (mn_counties cd))) (std0 arr)) = Inr (ord, fig)"
  shows "post_sampling w h cd fit =
           Inr (zip (elems (cells h (mn_counties cd))) (mean0 arr),
                zip (elems (cells h (mn_counties cd))) (std0 arr),
                head (zip (elems (cells h (mn_counties cd))) (mean0 arr)),
                ord, fig)"
  using cell7_Inr [of fit arr h cd] assms by (simp add: post_sampling_def and_then_def)

text \<open>
  The plot of two series over distinct labels whose values are numbers: the positions are
  permuted by the sort of the estimates.
\<close>

lemma cell8_numbers:
  assumes sp: "sorting_permutation (np_argsort w)"
      and d: "distinct names"
      and lm: "length ms = length names"
      and ls: "length ss = length names"
  shows "cell8 w (zip names (map Num ms)) (zip names (map Num ss)) =
           Inr (map (\<lambda>c. names ! c) (np_argsort w ms),
                Scatter [0..<length names] (map Num (map (\<lambda>c. ms ! c) (np_argsort w ms))) #
                map (\<lambda>i. Plot [i, i]
                            [Num (ms ! (np_argsort w ms ! i) - ss ! (np_argsort w ms ! i)),
                             Num (ms ! (np_argsort w ms ! i) + ss ! (np_argsort w ms ! i))]
                            ''b-'')
                  [0..<length names] @
                [Xlim (- 1) 86, Ylim (- 1) 4,
                 Title ''Variation in county radon estimates'',
                 Xlabel ''Ordered county'',
                 Ylabel ''Radon estimate''])"
proof -
  let ?est = "zip names (map Num ms)" and ?se = "zip names (map Num ss)"
  let ?n = "length names"
  let ?p = "np_argsort w ms"
  have len: "length ?est = ?n" "length ?se = ?n"
    using lm ls by simp_all
  have idx: "index ?est = names" "index ?se = names"
    using lm ls by (simp_all add: index_def)
  have vals: "values_of ?est = map Num ms"
    using lm by (simp add: values_of_def)
  have p: "nargsort (np_argsort w) (values_of ?est) = ?p"
    unfolding vals by (rule nargsort_all_num [OF sp])
  have setp: "set ?p = {0..<?n}" and lenp: "length ?p = ?n"
    using sorting_permutation_set [OF sp, of ms] lm by simp_all
  have inr: "c < ?n" if "c \<in> set ?p" for c
    using that setp by simp
  have pi: "?p ! i \<in> set ?p" if "i < ?n" for i
    using that lenp by simp
  have dd: "distinct (index ?est)" and ss: "index ?se = index ?est"
    using idx d by simp_all
  have a: "map (\<lambda>c. fst (?est ! c)) ?p = map (\<lambda>c. names ! c) ?p"
    using inr lm by simp
  have b: "map (\<lambda>c. snd (?est ! c)) ?p = map Num (map (\<lambda>c. ms ! c) ?p)"
    using inr lm by simp
  have c: "map (\<lambda>i. Plot [i, i]
                        [fsub (snd (?est ! (?p ! i))) (snd (?se ! (?p ! i))),
                         fadd (snd (?est ! (?p ! i))) (snd (?se ! (?p ! i)))] ''b-'')
              [0..<?n] =
           map (\<lambda>i. Plot [i, i]
                        [Num (ms ! (?p ! i) - ss ! (?p ! i)),
                         Num (ms ! (?p ! i) + ss ! (?p ! i))] ''b-'')
              [0..<?n]"
    using inr pi lm ls by simp
  show ?thesis
    unfolding cell8_Inr [OF sp dd ss] p len a b c ..
qed

text \<open>
  C7. When the fit holds at least one draw, the county names are distinct and numpy's sort
  returns a sorting permutation, the plot of cell 8 is this: with \<open>ms\<close> the column means
  and \<open>ss\<close> the column standard deviations of \<^verbatim>\<open>unpooled_fit['a']\<close>, there is a
  permutation \<open>p\<close> of the county positions such that the scatter shows, at the positions
  0, 1, \<open>\<dots>\<close>, the estimates of the counties \<open>p ! 0\<close>, \<open>p ! 1\<close>, \<open>\<dots>\<close>, in
  nondecreasing order, and the bar drawn at position \<open>i\<close> runs from \<open>m - se\<close> to
  \<open>m + se\<close> where \<open>m\<close> and \<open>se\<close> are the estimate and the standard error of the one
  county \<open>p ! i\<close>. The variable \<open>order\<close> holds the names of the counties in the order
  of \<open>p\<close>.
\<close>

theorem plot_is_sorted_and_paired:
  assumes "fit ''a'' = Inr arr"
      and "rows_of arr \<noteq> []"
      and "length (elems (cells h (mn_counties cd))) = ncols arr"
      and "distinct (elems (cells h (mn_counties cd)))"
      and "sorting_permutation (np_argsort w)"
  shows "\<exists>est se out ord ys bars p ms ss.
           post_sampling w h cd fit =
             Inr (est, se, out, ord,
                  Scatter [0..<ncols arr] (map Num ys) # bars @
                  [Xlim (- 1) 86, Ylim (- 1) 4,
                   Title ''Variation in county radon estimates'',
                   Xlabel ''Ordered county'',
                   Ylabel ''Radon estimate'']) \<and>
           ms = map (\<lambda>j. (\<Sum>i<length (rows_of arr). rows_of arr ! i ! j) /
                          real (length (rows_of arr))) [0..<ncols arr] \<and>
           ss = map (\<lambda>j. sqrt ((\<Sum>i<length (rows_of arr).
                                   (rows_of arr ! i ! j - ms ! j) ^ 2) /
                                real (length (rows_of arr)))) [0..<ncols arr] \<and>
           est = zip (elems (cells h (mn_counties cd))) (map Num ms) \<and>
           se = zip (elems (cells h (mn_counties cd))) (map Num ss) \<and>
           mset p = mset [0..<ncols arr] \<and>
           ord = map (\<lambda>c. elems (cells h (mn_counties cd)) ! c) p \<and>
           ys = map (\<lambda>c. ms ! c) p \<and>
           sorted ys \<and>
           length bars = ncols arr \<and>
           (\<forall>i<ncols arr.
              bars ! i = Plot [i, i]
                           [Num (ms ! (p ! i) - ss ! (p ! i)),
                            Num (ms ! (p ! i) + ss ! (p ! i))] ''b-'')"
proof -
  let ?names = "elems (cells h (mn_counties cd))"
  let ?n = "ncols arr"
  let ?R = "rows_of arr"
  let ?ms = "map (\<lambda>j. (\<Sum>i<length ?R. ?R ! i ! j) / real (length ?R)) [0..<?n]"
  let ?ss = "map (\<lambda>j. sqrt ((\<Sum>i<length ?R. (?R ! i ! j - ?ms ! j) ^ 2) /
                              real (length ?R))) [0..<?n]"
  let ?p = "np_argsort w ?ms"
  let ?bars = "map (\<lambda>i. Plot [i, i]
                           [Num (?ms ! (?p ! i) - ?ss ! (?p ! i)),
                            Num (?ms ! (?p ! i) + ?ss ! (?p ! i))] ''b-'') [0..<?n]"
  have m0: "mean0 arr = map Num ?ms"
    by (rule mean0_rows [OF assms(2)])
  have "map (\<lambda>j. sqrt ((\<Sum>i<length ?R.
                           (?R ! i ! j - (\<Sum>i<length ?R. ?R ! i ! j) / real (length ?R)) ^ 2) /
                        real (length ?R))) [0..<?n] = ?ss"
    by (intro map_cong refl) simp
  then have s0: "std0 arr = map Num ?ss"
    using std0_rows [OF assms(2)] by simp
  have lm: "length ?ms = length ?names" and ls: "length ?ss = length ?names"
    using assms(3) by simp_all
  have perm: "mset ?p = mset [0..<?n]" and srt: "sorted (map (\<lambda>c. ?ms ! c) ?p)"
    using assms(5) unfolding sorting_permutation_def by simp_all
  have c8: "cell8 w (zip ?names (mean0 arr)) (zip ?names (std0 arr)) =
              Inr (map (\<lambda>c. ?names ! c) ?p,
                   Scatter [0..<?n] (map Num (map (\<lambda>c. ?ms ! c) ?p)) # ?bars @
                   [Xlim (- 1) 86, Ylim (- 1) 4,
                    Title ''Variation in county radon estimates'',
                    Xlabel ''Ordered county'',
                    Ylabel ''Radon estimate''])"
    unfolding m0 s0 cell8_numbers [OF assms(5) assms(4) lm ls] assms(3) ..
  have ps: "post_sampling w h cd fit =
              Inr (zip ?names (map Num ?ms), zip ?names (map Num ?ss),
                   head (zip ?names (map Num ?ms)), map (\<lambda>c. ?names ! c) ?p,
                   Scatter [0..<?n] (map Num (map (\<lambda>c. ?ms ! c) ?p)) # ?bars @
                   [Xlim (- 1) 86, Ylim (- 1) 4,
                    Title ''Variation in county radon estimates'',
                    Xlabel ''Ordered county'',
                    Ylabel ''Radon estimate''])"
    using post_sampling_Inr [of fit arr h cd w, OF assms(1) assms(3) c8]
    unfolding m0 s0 .
  have lb: "length ?bars = ?n"
    by simp
  have nb: "\<forall>i<?n. ?bars ! i = Plot [i, i]
                           [Num (?ms ! (?p ! i) - ?ss ! (?p ! i)),
                            Num (?ms ! (?p ! i) + ?ss ! (?p ! i))] ''b-''"
    by simp
  show ?thesis
    using ps perm srt lb nb by blast
qed

theorem plot_is_sorted_and_paired_witness:
  "example_fit 0 ''a'' = Inr (Rows [5, 2] [[3, 2]]) \<and>
   distinct (elems (cells example_heap (mn_counties example_module))) \<and>
   sorting_permutation (np_argsort example_world) \<and>
   (\<exists>est se out ord ys bars.
      post_sampling example_world example_heap example_module (example_fit 0) =
        Inr (est, se, out, ord,
             Scatter [0..<2] (map Num ys) # bars @
             [Xlim (- 1) 86, Ylim (- 1) 4,
              Title ''Variation in county radon estimates'',
              Xlabel ''Ordered county'',
              Ylabel ''Radon estimate'']) \<and>
      sorted ys \<and> ys = [2, 4] \<and>
      ord = [StrVal ''ANOKA'', StrVal ''AITKIN''] \<and>
      bars = [Plot [0, 0] [Num (2 - 0), Num (2 + 0)] ''b-'',
              Plot [1, 1] [Num (4 - 1), Num (4 + 1)] ''b-''])"
proof -
  let ?arr = "Rows [5, 2] [[3, 2]]"
  have a: "example_fit 0 ''a'' = Inr ?arr"
    by (rule example_fit_a)
  have ne: "rows_of ?arr \<noteq> []"
    by simp
  have n: "length (elems (cells example_heap (mn_counties example_module))) = ncols ?arr"
    by (simp add: example_names)
  have d: "distinct (elems (cells example_heap (mn_counties example_module)))"
    by (simp add: example_names)
  have sp: "sorting_permutation (np_argsort example_world)"
    by (simp add: example_world_def sorting_permutation_insertion)
  from plot_is_sorted_and_paired [where fit = "example_fit 0", OF a ne n d sp]
  obtain est se out ord ys bars where
    ps: "post_sampling example_world example_heap example_module (example_fit 0) =
           Inr (est, se, out, ord,
                Scatter [0..<ncols ?arr] (map Num ys) # bars @
                [Xlim (- 1) 86, Ylim (- 1) 4,
                 Title ''Variation in county radon estimates'',
                 Xlabel ''Ordered county'',
                 Ylabel ''Radon estimate''])" and
    srt: "sorted ys"
    by blast
  have nc: "ncols ?arr = 2"
    by simp
  have ev: "post_sampling example_world example_heap example_module (example_fit 0) =
     Inr ([(StrVal ''AITKIN'', Num 4), (StrVal ''ANOKA'', Num 2)],
          [(StrVal ''AITKIN'', Num 1), (StrVal ''ANOKA'', Num 0)],
          [(StrVal ''AITKIN'', Num 4), (StrVal ''ANOKA'', Num 2)],
          [StrVal ''ANOKA'', StrVal ''AITKIN''],
          [Scatter [0, 1] [Num 2, Num 4],
           Plot [0, 0] [Num 2, Num 2] ''b-'', Plot [1, 1] [Num 3, Num 5] ''b-'',
           Xlim (- 1) 86, Ylim (- 1) 4,
           Title ''Variation in county radon estimates'',
           Xlabel ''Ordered county'', Ylabel ''Radon estimate''])"
    by (simp add: post_sampling_def example_cell7 and_then_def cell8_def example_world_def
        example_heap_def pd_Series_def head_def index_def values_of_def sort_values_def
        nargsort_def finite_values_def map_filter_simps insertion_argsort_def getitem_def
        plt_scatter_def zip3_def)
  from ps have vals: "map Num ys = [Num 2, Num 4]" "ord = [StrVal ''ANOKA'', StrVal ''AITKIN'']"
    "bars = [Plot [0, 0] [Num (2 - 0), Num (2 + 0)] ''b-'',
             Plot [1, 1] [Num (4 - 1), Num (4 + 1)] ''b-'']"
    unfolding ev by simp_all
  from vals(1) have ys: "ys = [2, 4]"
    by (auto simp: map_eq_Cons_conv)
  show ?thesis
    using a d sp ps srt vals(2,3) ys unfolding nc by blast
qed

subsection \<open>Runs in a world that keeps a log\<close>

lemma log_step_iff:
  "log_step ev m (s, evs) = (r, (t, evs')) \<longleftrightarrow> m s = (r, t) \<and> evs @ [ev] = evs'"
  by (auto simp: log_step_def split: prod.splits)

lemma logged_simps:
  "pylab_inline (logged w) = log_step PylabInline (pylab_inline w)"
  "import_module (logged w) name = log_step (Import name) (import_module w name)"
  "import_clean_data (logged w) = log_step ImportCleanData (import_clean_data w)"
  "sns_set_context (logged w) ctx = log_step (SetContext ctx) (sns_set_context w ctx)"
  "pystan_stan (logged w) c h = log_step (Stan c) (pystan_stan w c h)"
  "np_argsort (logged w) = np_argsort w"
  "pd_getitem_irregular (logged w) = pd_getitem_irregular w"
  by (simp_all add: logged_def)

lemma getitem_logged: "getitem (logged w) s key = getitem w s key"
  by (simp add: getitem_def logged_simps split: option.split)

lemma cell8_logged: "cell8 (logged w) est se = cell8 w est se"
  by (simp add: cell8_def logged_simps getitem_logged)

lemma post_sampling_logged: "post_sampling (logged w) h cd fit = post_sampling w h cd fit"
  by (simp add: post_sampling_def cell8_logged)

lemma cell1_logged_Inr:
  "cell1 (logged w) (s, evs) = (Inr (h, cd), (t, evs')) \<longleftrightarrow>
     cell1 w s = (Inr (h, cd), t) \<and> evs' = evs @ cell1_events"
  unfolding cell1_Inr_iff logged_simps split_paired_Ex log_step_iff cell1_events_def
  by auto

lemma run_logged_Inr:
  "run (logged w) (s, evs) = (Inr r, (t, evs')) \<longleftrightarrow>
     run w s = (Inr r, t) \<and>
     evs' = evs @ cell1_events @ [Stan (stan_args (unpooled_data_dict r))]"
  unfolding run_Inr_iff split_paired_Ex cell1_logged_Inr logged_simps log_step_iff
    post_sampling_logged
  by auto

lemma no_stan_cell1_events: "Stan c \<notin> set cell1_events"
  by (simp add: cell1_events_def)

lemma cell1_logged_Inl:
  assumes "cell1 (logged w) (s, evs) = (Inl e, (t, evs'))"
  shows "cell1 w s = (Inl e, t) \<and> (\<exists>pre. evs' = evs @ pre \<and> (\<forall>c. Stan c \<notin> set pre))"
proof -
  have a: "cell1 w s = (Inl e, t)"
    using assms
    unfolding cell1_Inl_iff logged_simps split_paired_Ex log_step_iff
    by (elim disjE exE conjE) auto
  have "\<exists>pre. evs' = evs @ pre \<and> set pre \<subseteq> set cell1_events"
    using assms
    unfolding cell1_Inl_iff logged_simps split_paired_Ex log_step_iff cell1_events_def
    by (elim disjE exE conjE) auto
  then have "\<exists>pre. evs' = evs @ pre \<and> (\<forall>c. Stan c \<notin> set pre)"
    using no_stan_cell1_events by blast
  with a show ?thesis ..
qed

lemma run_logged_Inl:
  assumes "run (logged w) (s, evs) = (Inl e, (t, evs'))"
  shows "run w s = (Inl e, t) \<and>
         (\<exists>pre. (evs' = evs @ pre \<or> (\<exists>d. evs' = evs @ pre @ [Stan (stan_args d)])) \<and>
                (\<forall>c. Stan c \<notin> set pre))"
proof -
  from assms consider
    (c1) "cell1 (logged w) (s, evs) = (Inl e, (t, evs'))"
  | (md) h cd s1 where "cell1 (logged w) (s, evs) = (Inr (h, cd), s1)"
      "map_data h cd = Inl e" "(t, evs') = s1"
  | (st) h cd s1 h' d where "cell1 (logged w) (s, evs) = (Inr (h, cd), s1)"
      "map_data h cd = Inr (h', d)"
      "pystan_stan (logged w) (stan_args d) h' s1 = (Inl e, (t, evs'))"
  | (ps) h cd s1 h' d fit where "cell1 (logged w) (s, evs) = (Inr (h, cd), s1)"
      "map_data h cd = Inr (h', d)"
      "pystan_stan (logged w) (stan_args d) h' s1 = (Inr fit, (t, evs'))"
      "post_sampling (logged w) h' cd fit = Inl e"
    unfolding run_Inl_iff by blast
  then show ?thesis
  proof cases
    case c1
    from cell1_logged_Inl [OF c1] show ?thesis
      unfolding run_Inl_iff by blast
  next
    case md
    from md(1,3) have "cell1 (logged w) (s, evs) = (Inr (h, cd), (t, evs'))"
      by simp
    then have "cell1 w s = (Inr (h, cd), t)" "evs' = evs @ cell1_events"
      unfolding cell1_logged_Inr by simp_all
    with md(2) show ?thesis
      unfolding run_Inl_iff using no_stan_cell1_events by blast
  next
    case st
    obtain u evs1 where s1: "s1 = (u, evs1)"
      by (cases s1)
    from st(1) have c: "cell1 w s = (Inr (h, cd), u)" "evs1 = evs @ cell1_events"
      unfolding s1 cell1_logged_Inr by simp_all
    from st(3) have p: "pystan_stan w (stan_args d) h' u = (Inl e, t)"
      "evs' = evs1 @ [Stan (stan_args d)]"
      unfolding s1 logged_simps log_step_iff by simp_all
    have "run w s = (Inl e, t)"
      unfolding run_Inl_iff using c(1) st(2) p(1) by blast
    moreover have "evs' = evs @ cell1_events @ [Stan (stan_args d)]"
      using c(2) p(2) by simp
    ultimately show ?thesis
      using no_stan_cell1_events by blast
  next
    case ps
    obtain u evs1 where s1: "s1 = (u, evs1)"
      by (cases s1)
    from ps(1) have c: "cell1 w s = (Inr (h, cd), u)" "evs1 = evs @ cell1_events"
      unfolding s1 cell1_logged_Inr by simp_all
    from ps(3) have p: "pystan_stan w (stan_args d) h' u = (Inr fit, t)"
      "evs' = evs1 @ [Stan (stan_args d)]"
      unfolding s1 logged_simps log_step_iff by simp_all
    have "run w s = (Inl e, t)"
      unfolding run_Inl_iff using c(1) ps(2,4) p(1) by (auto simp: post_sampling_logged)
    moreover have "evs' = evs @ cell1_events @ [Stan (stan_args d)]"
      using c(2) p(2) by simp
    ultimately show ?thesis
      using no_stan_cell1_events by blast
  qed
qed

lemma pd_Series_values: "pd_Series vs labels = Inr s \<Longrightarrow> values_of s = vs \<and> index s = labels"
  by (auto simp: pd_Series_def values_of_def index_def split: if_splits)

text \<open>
  C8. Run in a world that logs its outside steps, the notebook behaves as in the world
  itself, and the log of any run, failed or not, holds at most one call of the sampler, as
  its last entry; every logged call asks for 1000 iterations of 2 chains. A run that
  succeeds has made exactly one call, with the arguments of cell 6; the fit object of the
  namespace is the answer to that call, the outside state at the end is the state that
  call left, and the values of both summary series are the column means and standard
  deviations of the array the fit answers for \<^verbatim>\<open>'a'\<close>. The draws come from
  nowhere else: with any other sampler that answers this one call in the same way, the run
  is the same.
\<close>

theorem single_sampler_call:
  "\<exists>res t evs pre.
     run (logged w) (s, []) = (res, (t, evs)) \<and>
     run w s = (res, t) \<and>
     (evs = pre \<or> (\<exists>d. evs = pre @ [Stan (stan_args d)])) \<and>
     (\<forall>c. Stan c \<notin> set pre) \<and>
     (\<forall>c. Stan c \<in> set evs \<longrightarrow> iter c = 1000 \<and> chains c = 2) \<and>
     (\<forall>r. res = Inr r \<longrightarrow>
        (\<exists>s1 arr.
           evs = pre @ [Stan (stan_args (unpooled_data_dict r))] \<and>
           pystan_stan w (stan_args (unpooled_data_dict r)) (objects r) s1 =
             (Inr (unpooled_fit r), t) \<and>
           unpooled_fit r ''a'' = Inr arr \<and>
           values_of (unpooled_estimates r) = mean0 arr \<and>
           values_of (unpooled_se r) = std0 arr \<and>
           (\<forall>sampler.
              sampler (stan_args (unpooled_data_dict r)) (objects r) s1 =
                pystan_stan w (stan_args (unpooled_data_dict r)) (objects r) s1 \<longrightarrow>
              run (w\<lparr>pystan_stan := sampler\<rparr>) s = (Inr r, t))))"
proof -
  obtain res t evs where run: "run (logged w) (s, []) = (res, (t, evs))"
    by (metis surj_pair)
  show ?thesis
  proof (cases res)
    case (Inl e)
    from run_logged_Inl [OF run [unfolded Inl]] obtain pre where
      r: "run w s = (Inl e, t)" and
      evs: "evs = pre \<or> (\<exists>d. evs = pre @ [Stan (stan_args d)])" and
      pre: "\<forall>c. Stan c \<notin> set pre"
      by auto
    have args: "\<forall>c. Stan c \<in> set evs \<longrightarrow> iter c = 1000 \<and> chains c = 2"
      using evs pre by (auto simp: stan_args_def)
    show ?thesis
      using run r evs pre args unfolding Inl by blast
  next
    case (Inr r)
    from run [unfolded Inr run_logged_Inr] have
      r: "run w s = (Inr r, t)" and
      evs: "evs = cell1_events @ [Stan (stan_args (unpooled_data_dict r))]"
      by simp_all
    from r obtain h cd s1 h' d fit est se out ord fig where
      st: "cell1 w s = (Inr (h, cd), s1)" "map_data h cd = Inr (h', d)"
        "pystan_stan w (stan_args d) h' s1 = (Inr fit, t)"
        "post_sampling w h' cd fit = Inr (est, se, out, ord, fig)" and
      ns: "r = \<lparr>objects = h', clean_data = cd, unpooled_data_dict = d, unpooled_fit = fit,
               unpooled_estimates = est, unpooled_se = se, order = ord, out7 = out,
               figure = fig\<rparr>"
      unfolding run_Inr_iff by blast
    from st(4) obtain arr where
      c7: "fit ''a'' = Inr arr"
        "est = zip (elems (cells h' (mn_counties cd))) (mean0 arr)"
        "se = zip (elems (cells h' (mn_counties cd))) (std0 arr)"
        "length (elems (cells h' (mn_counties cd))) = ncols arr"
      unfolding post_sampling_Inr_iff cell7_Inr_iff by blast
    have vals: "values_of est = mean0 arr" "values_of se = std0 arr"
      using c7(2,3,4) by (simp_all add: values_of_def length_mean0 length_std0)
    have ext: "run (w\<lparr>pystan_stan := sampler\<rparr>) s = (Inr r, t)"
      if "sampler (stan_args d) h' s1 = pystan_stan w (stan_args d) h' s1" for sampler
    proof -
      have gi: "getitem (w\<lparr>pystan_stan := sampler\<rparr>) x key = getitem w x key" for x key
        by (simp add: getitem_def split: option.split)
      have "cell8 (w\<lparr>pystan_stan := sampler\<rparr>) x y = cell8 w x y" for x y
        by (simp add: cell8_def gi)
      then have ps: "post_sampling (w\<lparr>pystan_stan := sampler\<rparr>) h' cd fit =
                       post_sampling w h' cd fit"
        by (simp add: post_sampling_def)
      have c1: "cell1 (w\<lparr>pystan_stan := sampler\<rparr>) s = cell1 w s"
        by (simp add: cell1_def)
      show ?thesis
        unfolding run_Inr_iff ns using st that by (simp add: ps c1)
    qed
    have pre: "\<forall>c. Stan c \<notin> set cell1_events"
      using no_stan_cell1_events by blast
    have args: "\<forall>c. Stan c \<in> set evs \<longrightarrow> iter c = 1000 \<and> chains c = 2"
      unfolding evs using pre by (auto simp: stan_args_def)
    have succ: "\<exists>s1 arr.
           evs = cell1_events @ [Stan (stan_args (unpooled_data_dict r))] \<and>
           pystan_stan w (stan_args (unpooled_data_dict r)) (objects r) s1 =
             (Inr (unpooled_fit r), t) \<and>
           unpooled_fit r ''a'' = Inr arr \<and>
           values_of (unpooled_estimates r) = mean0 arr \<and>
           values_of (unpooled_se r) = std0 arr \<and>
           (\<forall>sampler.
              sampler (stan_args (unpooled_data_dict r)) (objects r) s1 =
                pystan_stan w (stan_args (unpooled_data_dict r)) (objects r) s1 \<longrightarrow>
              run (w\<lparr>pystan_stan := sampler\<rparr>) s = (Inr r, t))"
      using evs st(3) c7(1) vals ext unfolding ns by auto
    show ?thesis
      using run r evs pre args succ unfolding Inr by blast
  qed
qed

subsection \<open>Two runs\<close>

lemma example_logged_run:
  "run (logged example_world) (0, []) =
     (Inr example_result,
      (1, [PylabInline, Import ''numpy'', Import ''pandas'', Import ''pystan'',
           Import ''seaborn'', ImportCleanData, SetContext ''notebook'',
           Stan (stan_args [(''N'', PyInt 3), (''county'', PyRef 4), (''x'', PyRef 2),
                            (''y'', PyRef 0)])]))"
proof -
  have d: "unpooled_data_dict example_result =
             [(''N'', PyInt 3), (''county'', PyRef 4), (''x'', PyRef 2), (''y'', PyRef 0)]"
    by (simp add: example_result_def)
  have "run (logged example_world) (0, []) =
          (Inr example_result,
           (1, [] @ cell1_events @ [Stan (stan_args (unpooled_data_dict example_result))]))"
    by (rule iffD2 [OF run_logged_Inr]) (rule conjI [OF example_run refl])
  then show ?thesis
    unfolding d by (simp add: cell1_events_def)
qed

theorem single_sampler_call_witness:
  "run (logged example_world) (0, []) =
     (Inr example_result,
      (1, [PylabInline, Import ''numpy'', Import ''pandas'', Import ''pystan'',
           Import ''seaborn'', ImportCleanData, SetContext ''notebook'',
           Stan \<lparr>model_code = unpooled_data @ unpooled_parameters @
                                unpooled_transformed_parameters @ unpooled_model,
                 data = [(''N'', PyInt 3), (''county'', PyRef 4), (''x'', PyRef 2),
                         (''y'', PyRef 0)],
                 iter = 1000, chains = 2\<rparr>])) \<and>
   unpooled_fit example_result = example_fit 0 \<and>
   run (example_world\<lparr>pystan_stan :=
          (\<lambda>c h s. if c = stan_args (unpooled_data_dict example_result) \<and>
                      h = objects example_result \<and> s = 0
                   then (Inr (example_fit 0), 1) else (Inl ValueError, s))\<rparr>) 0
     = (Inr example_result, 1)"
proof -
  let ?r = "example_result"
  let ?E = "[PylabInline, Import ''numpy'', Import ''pandas'', Import ''pystan'',
             Import ''seaborn'', ImportCleanData, SetContext ''notebook'',
             Stan (stan_args [(''N'', PyInt 3), (''county'', PyRef 4), (''x'', PyRef 2),
                              (''y'', PyRef 0)])]"
  have ev: "run (logged example_world) (0, []) = (Inr ?r, (1, ?E))"
    by (rule example_logged_run)
  from single_sampler_call [of example_world 0] obtain res t evs pre where
    run: "run (logged example_world) (0, []) = (res, (t, evs))" and
    succ: "\<forall>r. res = Inr r \<longrightarrow>
        (\<exists>s1 arr.
           evs = pre @ [Stan (stan_args (unpooled_data_dict r))] \<and>
           pystan_stan example_world (stan_args (unpooled_data_dict r)) (objects r) s1 =
             (Inr (unpooled_fit r), t) \<and>
           unpooled_fit r ''a'' = Inr arr \<and>
           values_of (unpooled_estimates r) = mean0 arr \<and>
           values_of (unpooled_se r) = std0 arr \<and>
           (\<forall>sampler.
              sampler (stan_args (unpooled_data_dict r)) (objects r) s1 =
                pystan_stan example_world (stan_args (unpooled_data_dict r)) (objects r) s1 \<longrightarrow>
              run (example_world\<lparr>pystan_stan := sampler\<rparr>) 0 = (Inr r, t)))"
    by blast
  from run ev have res: "res = Inr ?r" "t = 1" "evs = ?E"
    by simp_all
  from succ res(1) obtain s1 where
    st: "pystan_stan example_world (stan_args (unpooled_data_dict ?r)) (objects ?r) s1 =
           (Inr (unpooled_fit ?r), t)" and
    ext: "\<forall>sampler.
            sampler (stan_args (unpooled_data_dict ?r)) (objects ?r) s1 =
              pystan_stan example_world (stan_args (unpooled_data_dict ?r)) (objects ?r) s1 \<longrightarrow>
            run (example_world\<lparr>pystan_stan := sampler\<rparr>) 0 = (Inr ?r, t)"
    by blast
  from st have s1: "s1 = 0"
    unfolding res(2) by (simp add: example_world_def)
  have fit: "unpooled_fit ?r = example_fit 0"
    by (simp add: example_result_def)
  let ?s = "\<lambda>c h s. if c = stan_args (unpooled_data_dict ?r) \<and> h = objects ?r \<and> s = 0
                     then (Inr (example_fit 0), 1) else (Inl ValueError, s :: nat)"
  have eq: "?s (stan_args (unpooled_data_dict ?r)) (objects ?r) s1 =
            pystan_stan example_world (stan_args (unpooled_data_dict ?r)) (objects ?r) s1"
    unfolding s1 by (simp add: example_world_def)
  have "run (example_world\<lparr>pystan_stan := ?s\<rparr>) 0 = (Inr ?r, t)"
    by (rule mp [OF spec [OF ext]]) (rule eq)
  with ev fit show ?thesis
    unfolding res(2) by (simp add: stan_args_def)
qed






subsection \<open>Failures\<close>

lemma plt_scatter_Inl_iff:
  "plt_scatter fig xs ys = Inl e \<longleftrightarrow> length xs \<noteq> length ys \<and> e = ValueError"
  by (auto simp: plt_scatter_def)

lemma cell8_Inl_iff:
  "cell8 w est se = Inl e \<longleftrightarrow>
     getitem w est (index (sort_values (np_argsort w) est)) = Inl e \<or>
     (\<exists>ys. getitem w est (index (sort_values (np_argsort w) est)) = Inr ys \<and>
        (length ys \<noteq> length est \<and> e = ValueError \<or>
         length ys = length est \<and>
           getitem w se (index (sort_values (np_argsort w) est)) = Inl e))"
  by (auto simp: cell8_def Let_def and_then_Inl_iff plt_scatter_def values_of_def)

lemma getitem_irregular:
  "\<not> distinct (index s) \<Longrightarrow> getitem w s key = pd_getitem_irregular w s key"
  by (simp add: getitem_def)

lemma post_sampling_fails:
  assumes sp: "sorting_permutation (np_argsort w)"
  shows "post_sampling w h cd fit = Inl e \<longleftrightarrow>
     fit ''a'' = Inl e \<or>
     (\<exists>arr names est se ord.
        fit ''a'' = Inr arr \<and>
        names = elems (cells h (mn_counties cd)) \<and>
        est = zip names (mean0 arr) \<and>
        se = zip names (std0 arr) \<and>
        ord = index (sort_values (np_argsort w) est) \<and>
        (length names \<noteq> ncols arr \<and> e = ValueError \<or>
         length names = ncols arr \<and> \<not> distinct names \<and>
           (pd_getitem_irregular w est ord = Inl e \<or>
            (\<exists>ys. pd_getitem_irregular w est ord = Inr ys \<and>
               (length ys \<noteq> length names \<and> e = ValueError \<or>
                length ys = length names \<and> pd_getitem_irregular w se ord = Inl e)))))"
  (is "?lhs \<longleftrightarrow> ?rhs")
proof -
  let ?names = "elems (cells h (mn_counties cd))"
  have c8: "cell8 w (zip ?names (mean0 arr)) (zip ?names (std0 arr)) = Inl e \<longleftrightarrow>
      \<not> distinct ?names \<and>
      (pd_getitem_irregular w (zip ?names (mean0 arr))
         (index (sort_values (np_argsort w) (zip ?names (mean0 arr)))) = Inl e \<or>
       (\<exists>ys. pd_getitem_irregular w (zip ?names (mean0 arr))
                (index (sort_values (np_argsort w) (zip ?names (mean0 arr)))) = Inr ys \<and>
          (length ys \<noteq> length ?names \<and> e = ValueError \<or>
           length ys = length ?names \<and>
             pd_getitem_irregular w (zip ?names (std0 arr))
               (index (sort_values (np_argsort w) (zip ?names (mean0 arr)))) = Inl e)))"
    if len: "length ?names = ncols arr" for arr
  proof (cases "distinct ?names")
    case True
    have idx: "index (zip ?names (mean0 arr)) = ?names" "index (zip ?names (std0 arr)) = ?names"
      using len by (simp_all add: index_def length_mean0 length_std0)
    have "\<exists>r. cell8 w (zip ?names (mean0 arr)) (zip ?names (std0 arr)) = Inr r"
      using cell8_Inr [OF sp, of "zip ?names (mean0 arr)" "zip ?names (std0 arr)"] True idx
      by simp
    with True show ?thesis
      by auto
  next
    case False
    have idx: "\<not> distinct (index (zip ?names (mean0 arr)))"
      "\<not> distinct (index (zip ?names (std0 arr)))"
      using False len by (simp_all add: index_def length_mean0 length_std0)
    have l: "length (zip ?names (mean0 arr)) = length ?names"
      using len by (simp add: length_mean0)
    show ?thesis
      unfolding cell8_Inl_iff getitem_irregular [OF idx(1)] getitem_irregular [OF idx(2)] l
      using False by simp
  qed
  have lhs: "?lhs \<longleftrightarrow>
      fit ''a'' = Inl e \<or>
      (\<exists>arr. fit ''a'' = Inr arr \<and>
         (length ?names \<noteq> ncols arr \<and> e = ValueError \<or>
          length ?names = ncols arr \<and>
            cell8 w (zip ?names (mean0 arr)) (zip ?names (std0 arr)) = Inl e))"
    unfolding post_sampling_Inl_iff cell7_Inl_iff cell7_Inr_iff by auto
  have rhs: "?rhs \<longleftrightarrow>
      fit ''a'' = Inl e \<or>
      (\<exists>arr. fit ''a'' = Inr arr \<and>
         (length ?names \<noteq> ncols arr \<and> e = ValueError \<or>
          length ?names = ncols arr \<and>
            (\<not> distinct ?names \<and>
      (pd_getitem_irregular w (zip ?names (mean0 arr))
         (index (sort_values (np_argsort w) (zip ?names (mean0 arr)))) = Inl e \<or>
       (\<exists>ys. pd_getitem_irregular w (zip ?names (mean0 arr))
                (index (sort_values (np_argsort w) (zip ?names (mean0 arr)))) = Inr ys \<and>
          (length ys \<noteq> length ?names \<and> e = ValueError \<or>
           length ys = length ?names \<and>
             pd_getitem_irregular w (zip ?names (std0 arr))
               (index (sort_values (np_argsort w) (zip ?names (mean0 arr)))) = Inl e))))))"
    by simp
  show ?thesis
    unfolding lhs rhs using c8 by blast
qed

lemma map_data_Inr_iff:
  "map_data h cd = Inr (h', d) \<longleftrightarrow>
     (\<exists>arr. np_add (cells h (county cd)) 1 = Inr arr \<and>
        h' = \<lparr>cells = (cells h)(free h := arr), free = Suc (free h)\<rparr> \<and>
        d = [(''N'', PyInt (int (length (elems (cells h (log_radon cd)))))),
             (''county'', PyRef (free h)),
             (''x'', PyRef (floor_measure cd)),
             (''y'', PyRef (log_radon cd))])"
  by (cases h) (auto simp: map_data_def and_then_Inr_iff alloc_def Let_def len_def)

text \<open>
  C4. The notebook handles no failure and checks no input. With a numpy sort that returns
  a sorting permutation, a run ends in the error \<open>e\<close> and the outside state \<open>t\<close>
  exactly in these cases, each after all the steps before it have succeeded:
  an outside step of cell 1 (the magic, an import, the import of the dataset,
  \<^verbatim>\<open>sns.set_context\<close>) raises \<open>e\<close> and leaves \<open>t\<close>;
  \<^verbatim>\<open>clean_data.county\<close> is an array of strings, the addition of 1 raises a
  \<^verbatim>\<open>TypeError\<close> and the sampler is never called;
  the sampler raises \<open>e\<close> and leaves \<open>t\<close>;
  indexing the fit with \<^verbatim>\<open>'a'\<close> raises \<open>e\<close>;
  the county names are not as many as the columns of the array, and \<^verbatim>\<open>pd.Series\<close>
  raises a \<^verbatim>\<open>ValueError\<close>;
  the county names are not distinct, and the indexing of a series by \<open>order\<close> raises
  \<open>e\<close> or answers a series of another length, at which the scatter plot raises a
  \<^verbatim>\<open>ValueError\<close>.
  The error of the run is the error of that step, unchanged, and the outside state is the
  one the last outside step left.
\<close>

theorem errors_propagate_unchanged:
  assumes "sorting_permutation (np_argsort w)"
  shows "run w s = (Inl e, t) \<longleftrightarrow>
     (pylab_inline w s = (Inl e, t) \<or>
      (\<exists>s1. pylab_inline w s = (Inr (), s1) \<and>
         (import_module w ''numpy'' s1 = (Inl e, t) \<or>
          (\<exists>s2. import_module w ''numpy'' s1 = (Inr (), s2) \<and>
             (import_module w ''pandas'' s2 = (Inl e, t) \<or>
              (\<exists>s3. import_module w ''pandas'' s2 = (Inr (), s3) \<and>
                 (import_module w ''pystan'' s3 = (Inl e, t) \<or>
                  (\<exists>s4. import_module w ''pystan'' s3 = (Inr (), s4) \<and>
                     (import_module w ''seaborn'' s4 = (Inl e, t) \<or>
                      (\<exists>s5. import_module w ''seaborn'' s4 = (Inr (), s5) \<and>
                         (import_clean_data w s5 = (Inl e, t) \<or>
                          (\<exists>loaded s6. import_clean_data w s5 = (Inr loaded, s6) \<and>
                             sns_set_context w ''notebook'' s6 = (Inl e, t))))))))))))) \<or>
     (\<exists>s1 s2 s3 s4 s5 s6 s7 h cd.
        pylab_inline w s = (Inr (), s1) \<and>
        import_module w ''numpy'' s1 = (Inr (), s2) \<and>
        import_module w ''pandas'' s2 = (Inr (), s3) \<and>
        import_module w ''pystan'' s3 = (Inr (), s4) \<and>
        import_module w ''seaborn'' s4 = (Inr (), s5) \<and>
        import_clean_data w s5 = (Inr (h, cd), s6) \<and>
        sns_set_context w ''notebook'' s6 = (Inr (), s7) \<and>
        ((\<exists>xs. cells h (county cd) = StrArray xs) \<and> e = TypeError \<and> t = s7 \<or>
         (\<exists>arr1 h' d.
            np_add (cells h (county cd)) 1 = Inr arr1 \<and>
            h' = \<lparr>cells = (cells h)(free h := arr1), free = Suc (free h)\<rparr> \<and>
            d = [(''N'', PyInt (int (length (elems (cells h (log_radon cd)))))),
                 (''county'', PyRef (free h)),
                 (''x'', PyRef (floor_measure cd)),
                 (''y'', PyRef (log_radon cd))] \<and>
            (pystan_stan w
               \<lparr>model_code = unpooled_data @ unpooled_parameters @
                               unpooled_transformed_parameters @ unpooled_model,
                data = d, iter = 1000, chains = 2\<rparr> h' s7 = (Inl e, t) \<or>
             (\<exists>fit.
                pystan_stan w
                  \<lparr>model_code = unpooled_data @ unpooled_parameters @
                                  unpooled_transformed_parameters @ unpooled_model,
                   data = d, iter = 1000, chains = 2\<rparr> h' s7 = (Inr fit, t) \<and>
                (fit ''a'' = Inl e \<or>
                 (\<exists>arr names est se ord.
                    fit ''a'' = Inr arr \<and>
                    names = elems (cells h' (mn_counties cd)) \<and>
                    est = zip names (mean0 arr) \<and>
                    se = zip names (std0 arr) \<and>
                    ord = index (sort_values (np_argsort w) est) \<and>
                    (length names \<noteq> ncols arr \<and> e = ValueError \<or>
                     length names = ncols arr \<and> \<not> distinct names \<and>
                       (pd_getitem_irregular w est ord = Inl e \<or>
                        (\<exists>ys. pd_getitem_irregular w est ord = Inr ys \<and>
                           (length ys \<noteq> length names \<and> e = ValueError \<or>
                            length ys = length names \<and>
                              pd_getitem_irregular w se ord = Inl e)))))))))))"
  (is "?lhs \<longleftrightarrow> ?A \<or> ?B")
proof -
  define R where "R = (\<lambda>h' d (cd :: clean_data_module) u.
            (pystan_stan w
               \<lparr>model_code = unpooled_data @ unpooled_parameters @
                               unpooled_transformed_parameters @ unpooled_model,
                data = d, iter = 1000, chains = 2\<rparr> h' u = (Inl e, t) \<or>
             (\<exists>fit.
                pystan_stan w
                  \<lparr>model_code = unpooled_data @ unpooled_parameters @
                                  unpooled_transformed_parameters @ unpooled_model,
                   data = d, iter = 1000, chains = 2\<rparr> h' u = (Inr fit, t) \<and>
                (fit ''a'' = Inl e \<or>
                 (\<exists>arr names est se ord.
                    fit ''a'' = Inr arr \<and>
                    names = elems (cells h' (mn_counties cd)) \<and>
                    est = zip names (mean0 arr) \<and>
                    se = zip names (std0 arr) \<and>
                    ord = index (sort_values (np_argsort w) est) \<and>
                    (length names \<noteq> ncols arr \<and> e = ValueError \<or>
                     length names = ncols arr \<and> \<not> distinct names \<and>
                       (pd_getitem_irregular w est ord = Inl e \<or>
                        (\<exists>ys. pd_getitem_irregular w est ord = Inr ys \<and>
                           (length ys \<noteq> length names \<and> e = ValueError \<or>
                            length ys = length names \<and>
                              pd_getitem_irregular w se ord = Inl e)))))))))"
  define P where "P = (\<lambda>(h :: heap) (cd :: clean_data_module) u.
        ((\<exists>xs. cells h (county cd) = StrArray xs) \<and> e = TypeError \<and> t = u \<or>
         (\<exists>arr1 h' d.
            np_add (cells h (county cd)) 1 = Inr arr1 \<and>
            h' = \<lparr>cells = (cells h)(free h := arr1), free = Suc (free h)\<rparr> \<and>
            d = [(''N'', PyInt (int (length (elems (cells h (log_radon cd)))))),
                 (''county'', PyRef (free h)),
                 (''x'', PyRef (floor_measure cd)),
                 (''y'', PyRef (log_radon cd))] \<and>
            R h' d cd u)))"
  have R: "(pystan_stan w (stan_args d) h' u = (Inl e, t) \<or>
             (\<exists>fit. pystan_stan w (stan_args d) h' u = (Inr fit, t) \<and>
                post_sampling w h' cd fit = Inl e)) \<longleftrightarrow> R h' d cd u" for h' d cd u
    unfolding R_def post_sampling_fails [OF assms] stan_args_def ..
  have Q: "(map_data h cd = Inl e \<and> t = u \<or>
         (\<exists>h' d. map_data h cd = Inr (h', d) \<and>
            (pystan_stan w (stan_args d) h' u = (Inl e, t) \<or>
             (\<exists>fit. pystan_stan w (stan_args d) h' u = (Inr fit, t) \<and>
                post_sampling w h' cd fit = Inl e)))) \<longleftrightarrow> P h cd u" for h cd u
    unfolding R P_def map_data_Inl_iff np_add_Inl_iff map_data_Inr_iff by blast
  have A: "cell1 w s = (Inl e, t) \<longleftrightarrow> ?A"
    by (rule cell1_Inl_iff)
  have B: "?B \<longleftrightarrow>
     (\<exists>s1 s2 s3 s4 s5 s6 s7 h cd.
        pylab_inline w s = (Inr (), s1) \<and>
        import_module w ''numpy'' s1 = (Inr (), s2) \<and>
        import_module w ''pandas'' s2 = (Inr (), s3) \<and>
        import_module w ''pystan'' s3 = (Inr (), s4) \<and>
        import_module w ''seaborn'' s4 = (Inr (), s5) \<and>
        import_clean_data w s5 = (Inr (h, cd), s6) \<and>
        sns_set_context w ''notebook'' s6 = (Inr (), s7) \<and>
        P h cd s7)"
    unfolding P_def R_def ..
  have C: "(\<exists>h cd s1. cell1 w s = (Inr (h, cd), s1) \<and> P h cd s1) \<longleftrightarrow>
     (\<exists>s1 s2 s3 s4 s5 s6 s7 h cd.
        pylab_inline w s = (Inr (), s1) \<and>
        import_module w ''numpy'' s1 = (Inr (), s2) \<and>
        import_module w ''pandas'' s2 = (Inr (), s3) \<and>
        import_module w ''pystan'' s3 = (Inr (), s4) \<and>
        import_module w ''seaborn'' s4 = (Inr (), s5) \<and>
        import_clean_data w s5 = (Inr (h, cd), s6) \<and>
        sns_set_context w ''notebook'' s6 = (Inr (), s7) \<and>
        P h cd s7)"
    unfolding cell1_Inr_iff by blast
  show ?thesis
    unfolding run_Inl_iff A B Q C ..
qed

text \<open>A sampler that fails: the run ends in the sampler's own error.\<close>

theorem errors_propagate_unchanged_witness:
  "sorting_permutation (np_argsort failing_world) \<and>
   run failing_world 0 = (Inl (RuntimeError ''Initialization failed.''), 1)"
proof -
  have sp: "sorting_permutation (np_argsort failing_world)"
    by (simp add: failing_world_def example_world_def sorting_permutation_insertion)
  have "run failing_world 0 = (Inl (RuntimeError ''Initialization failed.''), 1)"
    apply (rule iffD2 [OF errors_propagate_unchanged [OF sp]])
    apply (rule disjI2)
    apply (rule exI [of _ 0])+
    apply (rule exI [of _ example_heap])
    apply (rule exI [of _ example_module])
    apply (simp add: failing_world_def example_world_def pure_step_def example_heap_def
        example_module_def)
    done
  with sp show ?thesis ..
qed

text \<open>
  A dataset whose county column holds names: the run ends in a \<^verbatim>\<open>TypeError\<close>
  raised by the addition in the dictionary literal, and the log shows that the sampler
  was not called.
\<close>

theorem failure_without_the_sampler:
  "run (logged names_as_county_world) (0, []) =
     (Inl TypeError,
      (0, [PylabInline, Import ''numpy'', Import ''pandas'', Import ''pystan'',
           Import ''seaborn'', ImportCleanData, SetContext ''notebook'']))"
  by (simp add: run_def cell1_def next_step_def pure_step_def logged_def log_step_def
      names_as_county_world_def example_world_def map_data_def and_then_def
      example_module_def)

subsection \<open>The whole run\<close>

text \<open>The plot of two series over distinct labels whose values are all NaN.\<close>

lemma cell8_nans:
  assumes sp: "sorting_permutation (np_argsort w)"
      and d: "distinct names"
  shows "cell8 w (zip names (replicate (length names) NaN))
                 (zip names (replicate (length names) NaN)) =
           Inr (names,
                Scatter [0..<length names] (replicate (length names) NaN) #
                map (\<lambda>i. Plot [i, i] [NaN, NaN] ''b-'') [0..<length names] @
                [Xlim (- 1) 86, Ylim (- 1) 4,
                 Title ''Variation in county radon estimates'',
                 Xlabel ''Ordered county'',
                 Ylabel ''Radon estimate''])"
proof -
  let ?n = "length names"
  let ?est = "zip names (replicate ?n NaN)"
  have len: "length ?est = ?n"
    by simp
  have idx: "index ?est = names"
    by (simp add: index_def)
  have vals: "values_of ?est = replicate ?n NaN"
    by (simp add: values_of_def)
  have p: "nargsort (np_argsort w) (values_of ?est) = [0..<?n]"
    unfolding vals using nargsort_all_nan [OF sp, of "replicate ?n NaN"] by simp
  have dd: "distinct (index ?est)" and ss: "index ?est = index ?est"
    using idx d by simp_all
  have a: "map (\<lambda>c. fst (?est ! c)) [0..<?n] = names"
    by (intro nth_equalityI) simp_all
  have b: "map (\<lambda>c. snd (?est ! c)) [0..<?n] = replicate ?n NaN"
    by (intro nth_equalityI) simp_all
  have c: "map (\<lambda>i. Plot [i, i]
                        [fsub (snd (?est ! ([0..<?n] ! i))) (snd (?est ! ([0..<?n] ! i))),
                         fadd (snd (?est ! ([0..<?n] ! i))) (snd (?est ! ([0..<?n] ! i)))]
                        ''b-'')
              [0..<?n] =
           map (\<lambda>i. Plot [i, i] [NaN, NaN] ''b-'') [0..<?n]"
    by (intro map_cong refl) simp
  show ?thesis
    unfolding cell8_Inr [OF sp dd ss] p len a b c ..
qed

text \<open>
  C1. What a run does, in order. It takes the seven outside steps of cell 1: the
  \<^verbatim>\<open>%pylab inline\<close> magic, the imports of numpy, pandas, pystan and seaborn, the
  import of the dataset and \<^verbatim>\<open>sns.set_context('notebook')\<close>. It builds the
  dictionary: \<open>N\<close> the length of \<^verbatim>\<open>log_radon\<close>, \<open>county\<close> a new array holding
  each entry of \<^verbatim>\<open>clean_data.county\<close> plus one (in the element type of the array),
  \<open>x\<close> and \<open>y\<close> the dataset's own arrays. It calls the sampler, once, with the model
  text made of the four blocks, this dictionary, 1000 iterations and 2 chains. It indexes
  the fit with \<^verbatim>\<open>'a'\<close>. When all these succeed, the county names are distinct and as
  many as the columns of the array, and numpy's sort returns a sorting permutation, the
  run succeeds, its log holds these eight outside steps and no other, and it leaves
  behind exactly this:
  the estimates, the column means labelled by the county names;
  the standard errors, the column standard deviations with the same labels;
  the displayed first five rows of the estimates;
  \<open>order\<close>, the county names in the order \<open>p\<close> in which numpy sorts the estimates;
  the figure: a scatter of the estimates in the order \<open>p\<close>, one bar per position \<open>i\<close>
  from \<open>m - se\<close> to \<open>m + se\<close> of the county \<open>p ! i\<close>, the two axis limits, the title
  and the two axis labels.
  When the array holds no draws, every summary is NaN, \<open>order\<close> is the county names as
  they stand, and the figure is drawn with NaN everywhere; the run succeeds all the same.
\<close>

theorem notebook_behaviour:
  assumes "pylab_inline w s = (Inr (), s1)"
      and "import_module w ''numpy'' s1 = (Inr (), s2)"
      and "import_module w ''pandas'' s2 = (Inr (), s3)"
      and "import_module w ''pystan'' s3 = (Inr (), s4)"
      and "import_module w ''seaborn'' s4 = (Inr (), s5)"
      and "import_clean_data w s5 = (Inr (h, cd), s6)"
      and "sns_set_context w ''notebook'' s6 = (Inr (), s7)"
      and "cells h (county cd) = IntArray ty cs"
      and "h' = \<lparr>cells = (cells h)(free h := IntArray ty (map (\<lambda>c. wrap ty (c + 1)) cs)),
                  free = Suc (free h)\<rparr>"
      and "d = [(''N'', PyInt (int (length (elems (cells h (log_radon cd)))))),
                (''county'', PyRef (free h)),
                (''x'', PyRef (floor_measure cd)),
                (''y'', PyRef (log_radon cd))]"
      and "c = \<lparr>model_code = unpooled_data @ unpooled_parameters @
                               unpooled_transformed_parameters @ unpooled_model,
                 data = d, iter = 1000, chains = 2\<rparr>"
      and "pystan_stan w c h' s7 = (Inr fit, t)"
      and "fit ''a'' = Inr arr"
      and "names = elems (cells h' (mn_counties cd))"
      and "length names = ncols arr"
      and "distinct names"
      and "sorting_permutation (np_argsort w)"
      and "ms = map (\<lambda>j. (\<Sum>i<length (rows_of arr). rows_of arr ! i ! j) /
                           real (length (rows_of arr))) [0..<ncols arr]"
      and "ss = map (\<lambda>j. sqrt ((\<Sum>i<length (rows_of arr).
                                    (rows_of arr ! i ! j - ms ! j) ^ 2) /
                                 real (length (rows_of arr)))) [0..<ncols arr]"
      and "p = np_argsort w ms"
      and "events = [PylabInline, Import ''numpy'', Import ''pandas'', Import ''pystan'',
                     Import ''seaborn'', ImportCleanData, SetContext ''notebook'', Stan c]"
  shows "(rows_of arr \<noteq> [] \<longrightarrow>
            run (logged w) (s, []) =
              (Inr \<lparr>objects = h', clean_data = cd, unpooled_data_dict = d,
                     unpooled_fit = fit,
                     unpooled_estimates = zip names (map Num ms),
                     unpooled_se = zip names (map Num ss),
                     order = map (\<lambda>k. names ! k) p,
                     out7 = take 5 (zip names (map Num ms)),
                     figure =
                       Scatter [0..<length names] (map (\<lambda>k. Num (ms ! k)) p) #
                       map (\<lambda>i. Plot [i, i]
                                   [Num (ms ! (p ! i) - ss ! (p ! i)),
                                    Num (ms ! (p ! i) + ss ! (p ! i))] ''b-'')
                         [0..<length names] @
                       [Xlim (- 1) 86, Ylim (- 1) 4,
                        Title ''Variation in county radon estimates'',
                        Xlabel ''Ordered county'',
                        Ylabel ''Radon estimate'']\<rparr>,
               (t, events))) \<and>
         (rows_of arr = [] \<longrightarrow>
            run (logged w) (s, []) =
              (Inr \<lparr>objects = h', clean_data = cd, unpooled_data_dict = d,
                     unpooled_fit = fit,
                     unpooled_estimates = zip names (replicate (length names) NaN),
                     unpooled_se = zip names (replicate (length names) NaN),
                     order = names,
                     out7 = take 5 (zip names (replicate (length names) NaN)),
                     figure =
                       Scatter [0..<length names] (replicate (length names) NaN) #
                       map (\<lambda>i. Plot [i, i] [NaN, NaN] ''b-'') [0..<length names] @
                       [Xlim (- 1) 86, Ylim (- 1) 4,
                        Title ''Variation in county radon estimates'',
                        Xlabel ''Ordered county'',
                        Ylabel ''Radon estimate'']\<rparr>,
               (t, events)))"
proof -
  have c1: "cell1 w s = (Inr (h, cd), s7)"
    unfolding cell1_Inr_iff using assms(1-7) by blast
  have md: "map_data h cd = Inr (h', d)"
    unfolding assms(9,10) map_data_IntArray [OF assms(8)] by (simp add: len_def)
  have sa: "stan_args d = c"
    by (simp add: stan_args_def assms(11))
  have st: "pystan_stan w (stan_args d) h' s7 = (Inr fit, t)"
    unfolding sa by (rule assms(12))
  have ln: "length (elems (cells h' (mn_counties cd))) = ncols arr"
    using assms(14,15) by simp
  have go: "run (logged w) (s, []) =
              (Inr \<lparr>objects = h', clean_data = cd, unpooled_data_dict = d,
                     unpooled_fit = fit, unpooled_estimates = est, unpooled_se = se,
                     order = ord, out7 = take 5 est, figure = fig\<rparr>,
               (t, events))"
    if c8: "cell8 w est se = Inr (ord, fig)"
      and est: "est = zip names (mean0 arr)" and se: "se = zip names (std0 arr)"
    for est se ord fig
  proof -
    have ps: "post_sampling w h' cd fit = Inr (est, se, take 5 est, ord, fig)"
      using post_sampling_Inr [of fit arr h' cd w ord fig, OF assms(13) ln]
        c8 [unfolded est se assms(14)]
      unfolding est se assms(14) head_def by simp
    have r: "run w s =
               (Inr \<lparr>objects = h', clean_data = cd, unpooled_data_dict = d,
                      unpooled_fit = fit, unpooled_estimates = est, unpooled_se = se,
                      order = ord, out7 = take 5 est, figure = fig\<rparr>, t)"
      unfolding run_Inr_iff using c1 md st ps by blast
    show ?thesis
      unfolding run_logged_Inr using r by (simp add: cell1_events_def sa assms(21))
  qed
  show ?thesis
  proof (intro conjI impI)
    assume ne: "rows_of arr \<noteq> []"
    have m0: "mean0 arr = map Num ms"
      unfolding assms(18) by (rule mean0_rows [OF ne])
    have "map (\<lambda>j. sqrt ((\<Sum>i<length (rows_of arr).
                             (rows_of arr ! i ! j -
                              (\<Sum>i<length (rows_of arr). rows_of arr ! i ! j) /
                                real (length (rows_of arr))) ^ 2) /
                          real (length (rows_of arr)))) [0..<ncols arr] = ss"
      unfolding assms(19) assms(18) by (intro map_cong refl) simp
    then have s0: "std0 arr = map Num ss"
      using std0_rows [OF ne] by simp
    have lm: "length ms = length names" and ls: "length ss = length names"
      using assms(15) by (simp_all add: assms(18,19))
    have c8: "cell8 w (zip names (map Num ms)) (zip names (map Num ss)) =
                Inr (map (\<lambda>k. names ! k) p,
                     Scatter [0..<length names] (map (\<lambda>k. Num (ms ! k)) p) #
                     map (\<lambda>i. Plot [i, i]
                                 [Num (ms ! (p ! i) - ss ! (p ! i)),
                                  Num (ms ! (p ! i) + ss ! (p ! i))] ''b-'')
                       [0..<length names] @
                     [Xlim (- 1) 86, Ylim (- 1) 4,
                      Title ''Variation in county radon estimates'',
                      Xlabel ''Ordered county'',
                      Ylabel ''Radon estimate''])"
      unfolding cell8_numbers [OF assms(17) assms(16) lm ls] assms(20)
      by (simp add: comp_def)
    show "run (logged w) (s, []) =
              (Inr \<lparr>objects = h', clean_data = cd, unpooled_data_dict = d,
                     unpooled_fit = fit,
                     unpooled_estimates = zip names (map Num ms),
                     unpooled_se = zip names (map Num ss),
                     order = map (\<lambda>k. names ! k) p,
                     out7 = take 5 (zip names (map Num ms)),
                     figure =
                       Scatter [0..<length names] (map (\<lambda>k. Num (ms ! k)) p) #
                       map (\<lambda>i. Plot [i, i]
                                   [Num (ms ! (p ! i) - ss ! (p ! i)),
                                    Num (ms ! (p ! i) + ss ! (p ! i))] ''b-'')
                         [0..<length names] @
                       [Xlim (- 1) 86, Ylim (- 1) 4,
                        Title ''Variation in county radon estimates'',
                        Xlabel ''Ordered county'',
                        Ylabel ''Radon estimate'']\<rparr>,
               (t, events))"
      by (rule go [OF c8]) (simp_all add: m0 s0)
  next
    assume em: "rows_of arr = []"
    have m0: "mean0 arr = replicate (length names) NaN"
      using mean0_no_rows [OF em] assms(15) by simp
    have s0: "std0 arr = replicate (length names) NaN"
      using std0_no_rows [OF em] assms(15) by simp
    show "run (logged w) (s, []) =
              (Inr \<lparr>objects = h', clean_data = cd, unpooled_data_dict = d,
                     unpooled_fit = fit,
                     unpooled_estimates = zip names (replicate (length names) NaN),
                     unpooled_se = zip names (replicate (length names) NaN),
                     order = names,
                     out7 = take 5 (zip names (replicate (length names) NaN)),
                     figure =
                       Scatter [0..<length names] (replicate (length names) NaN) #
                       map (\<lambda>i. Plot [i, i] [NaN, NaN] ''b-'') [0..<length names] @
                       [Xlim (- 1) 86, Ylim (- 1) 4,
                        Title ''Variation in county radon estimates'',
                        Xlabel ''Ordered county'',
                        Ylabel ''Radon estimate'']\<rparr>,
               (t, events))"
      by (rule go [OF cell8_nans [OF assms(17) assms(16)]]) (simp_all add: m0 s0)
  qed
qed

text \<open>
  The run of the small world from the state 0, and the run of the world whose sampler
  answers no draws.
\<close>

theorem notebook_behaviour_witness:
  "run (logged example_world) (0, []) =
     (Inr example_result,
      (1, [PylabInline, Import ''numpy'', Import ''pandas'', Import ''pystan'',
           Import ''seaborn'', ImportCleanData, SetContext ''notebook'',
           Stan \<lparr>model_code = unpooled_data @ unpooled_parameters @
                                unpooled_transformed_parameters @ unpooled_model,
                 data = [(''N'', PyInt 3), (''county'', PyRef 4), (''x'', PyRef 2),
                         (''y'', PyRef 0)],
                 iter = 1000, chains = 2\<rparr>])) \<and>
   run (logged no_draws_world) (0, []) =
     (Inr \<lparr>objects = \<lparr>cells = (cells example_heap)(4 := IntArray Int64 [1, 2, 2]),
                       free = 5\<rparr>,
            clean_data = example_module,
            unpooled_data_dict =
              [(''N'', PyInt 3), (''county'', PyRef 4), (''x'', PyRef 2), (''y'', PyRef 0)],
            unpooled_fit = no_draws_fit,
            unpooled_estimates = [(StrVal ''AITKIN'', NaN), (StrVal ''ANOKA'', NaN)],
            unpooled_se = [(StrVal ''AITKIN'', NaN), (StrVal ''ANOKA'', NaN)],
            order = [StrVal ''AITKIN'', StrVal ''ANOKA''],
            out7 = [(StrVal ''AITKIN'', NaN), (StrVal ''ANOKA'', NaN)],
            figure =
              [Scatter [0, 1] [NaN, NaN],
               Plot [0, 0] [NaN, NaN] ''b-'', Plot [1, 1] [NaN, NaN] ''b-'',
               Xlim (- 1) 86, Ylim (- 1) 4,
               Title ''Variation in county radon estimates'',
               Xlabel ''Ordered county'', Ylabel ''Radon estimate'']\<rparr>,
      (1, [PylabInline, Import ''numpy'', Import ''pandas'', Import ''pystan'',
           Import ''seaborn'', ImportCleanData, SetContext ''notebook'',
           Stan \<lparr>model_code = unpooled_data @ unpooled_parameters @
                                unpooled_transformed_parameters @ unpooled_model,
                 data = [(''N'', PyInt 3), (''county'', PyRef 4), (''x'', PyRef 2),
                         (''y'', PyRef 0)],
                 iter = 1000, chains = 2\<rparr>]))"
proof -
  let ?h = "\<lparr>cells = (cells example_heap)(free example_heap :=
                         IntArray Int64 (map (\<lambda>c. wrap Int64 (c + 1)) [0, 1, 1])),
               free = Suc (free example_heap)\<rparr>"
  let ?d = "[(''N'', PyInt (int (length (elems (cells example_heap (log_radon example_module)))))),
             (''county'', PyRef (free example_heap)),
             (''x'', PyRef (floor_measure example_module)),
             (''y'', PyRef (log_radon example_module))]"
  let ?c = "\<lparr>model_code = unpooled_data @ unpooled_parameters @
                               unpooled_transformed_parameters @ unpooled_model,
               data = ?d, iter = 1000, chains = 2\<rparr>"
  let ?names = "elems (cells ?h (mn_counties example_module))"
  have two: "{..<2::nat} = {0, 1}"
    by auto
  have h: "?h = \<lparr>cells = (cells example_heap)(4 := IntArray Int64 [1, 2, 2]), free = 5\<rparr>"
    by (simp add: example_heap_def wrap_def)
  have d: "?d = [(''N'', PyInt 3), (''county'', PyRef 4), (''x'', PyRef 2), (''y'', PyRef 0)]"
    by (simp add: example_heap_def example_module_def)
  have names: "?names = [StrVal ''AITKIN'', StrVal ''ANOKA'']"
    by (simp add: example_heap_def example_module_def)
  have names3: "elems (cells example_heap 3) = [StrVal ''AITKIN'', StrVal ''ANOKA'']"
    by (simp add: example_heap_def)
  have a1: "pylab_inline example_world 0 = (Inr (), 0)"
    and a2: "import_module example_world name 0 = (Inr (), 0)"
    and a6: "import_clean_data example_world 0 = (Inr (example_heap, example_module), 0)"
    and a7: "sns_set_context example_world ''notebook'' 0 = (Inr (), 0)"
    and a12: "pystan_stan example_world ?c ?h 0 = (Inr (example_fit 0), 1)"
    for name
    by (simp_all add: example_world_def pure_step_def)
  have b1: "pylab_inline no_draws_world 0 = (Inr (), 0)"
    and b2: "import_module no_draws_world name 0 = (Inr (), 0)"
    and b6: "import_clean_data no_draws_world 0 = (Inr (example_heap, example_module), 0)"
    and b7: "sns_set_context no_draws_world ''notebook'' 0 = (Inr (), 0)"
    and b12: "pystan_stan no_draws_world ?c ?h 0 = (Inr no_draws_fit, 1)"
    for name
    by (simp_all add: no_draws_world_def example_world_def pure_step_def)
  have a8: "cells example_heap (county example_module) = IntArray Int64 [0, 1, 1]"
    by (simp add: example_heap_def example_module_def)
  have a13: "example_fit 0 ''a'' = Inr (Rows [5, 2] [[3, 2]])"
    by (simp add: example_fit_def)
  have b13: "no_draws_fit ''a'' = Inr (NoRows 2)"
    by (simp add: no_draws_fit_def)
  have a15: "length ?names = ncols (Rows [5, 2] [[3, 2]])"
    and b15: "length ?names = ncols (NoRows 2)"
    and a16: "distinct ?names"
    unfolding names by simp_all
  have a17: "sorting_permutation (np_argsort example_world)"
    and b17: "sorting_permutation (np_argsort no_draws_world)"
    using sorting_permutation_insertion by (simp_all add: no_draws_world_def example_world_def)
  have draws: "rows_of (Rows [5, 2] [[3, 2]]) \<noteq> []" and none: "rows_of (NoRows 2) = []"
    by simp_all
  from notebook_behaviour [OF a1 a2 a2 a2 a2 a6 a7 a8 refl refl refl a12 a13 refl a15 a16 a17
      refl refl refl refl] draws
  have A: "run (logged example_world) (0, []) =
     (Inr example_result,
      (1, [PylabInline, Import ''numpy'', Import ''pandas'', Import ''pystan'',
           Import ''seaborn'', ImportCleanData, SetContext ''notebook'',
           Stan \<lparr>model_code = unpooled_data @ unpooled_parameters @
                                unpooled_transformed_parameters @ unpooled_model,
                 data = [(''N'', PyInt 3), (''county'', PyRef 4), (''x'', PyRef 2),
                         (''y'', PyRef 0)],
                 iter = 1000, chains = 2\<rparr>]))"
    unfolding names h d
    by (simp add: two example_result_def example_world_def insertion_argsort_def
        example_module_def names3 upt_rec)
  from notebook_behaviour [OF b1 b2 b2 b2 b2 b6 b7 a8 refl refl refl b12 b13 refl b15 a16 b17
      refl refl refl refl] none
  have B: "run (logged no_draws_world) (0, []) =
     (Inr \<lparr>objects = \<lparr>cells = (cells example_heap)(4 := IntArray Int64 [1, 2, 2]),
                       free = 5\<rparr>,
            clean_data = example_module,
            unpooled_data_dict =
              [(''N'', PyInt 3), (''county'', PyRef 4), (''x'', PyRef 2), (''y'', PyRef 0)],
            unpooled_fit = no_draws_fit,
            unpooled_estimates = [(StrVal ''AITKIN'', NaN), (StrVal ''ANOKA'', NaN)],
            unpooled_se = [(StrVal ''AITKIN'', NaN), (StrVal ''ANOKA'', NaN)],
            order = [StrVal ''AITKIN'', StrVal ''ANOKA''],
            out7 = [(StrVal ''AITKIN'', NaN), (StrVal ''ANOKA'', NaN)],
            figure =
              [Scatter [0, 1] [NaN, NaN],
               Plot [0, 0] [NaN, NaN] ''b-'', Plot [1, 1] [NaN, NaN] ''b-'',
               Xlim (- 1) 86, Ylim (- 1) 4,
               Title ''Variation in county radon estimates'',
               Xlabel ''Ordered county'', Ylabel ''Radon estimate'']\<rparr>,
      (1, [PylabInline, Import ''numpy'', Import ''pandas'', Import ''pystan'',
           Import ''seaborn'', ImportCleanData, SetContext ''notebook'',
           Stan \<lparr>model_code = unpooled_data @ unpooled_parameters @
                                unpooled_transformed_parameters @ unpooled_model,
                 data = [(''N'', PyInt 3), (''county'', PyRef 4), (''x'', PyRef 2),
                         (''y'', PyRef 0)],
                 iter = 1000, chains = 2\<rparr>]))"
    unfolding names h d
    by (simp add: example_module_def names3 upt_rec)
  show ?thesis
    using A B by (rule conjI)
qed

text \<open>
  The run of the small world does more than load, build a string, sample, index, summarise
  and plot: its log holds the magic, four library imports and the call of
  \<^verbatim>\<open>sns.set_context\<close>; the array sent as \<open>county\<close> is a newly computed one, the
  loaded array plus one; the head of the estimates is displayed; and \<open>order\<close> is the
  result of a sort, not the order of the estimates.
\<close>

theorem more_than_the_listed_steps:
  "run (logged example_world) (0, []) =
     (Inr example_result,
      (1, [PylabInline, Import ''numpy'', Import ''pandas'', Import ''pystan'',
           Import ''seaborn'', ImportCleanData, SetContext ''notebook'',
           Stan (stan_args (unpooled_data_dict example_result))])) \<and>
   cells (objects example_result) (county (clean_data example_result)) =
     IntArray Int64 [0, 1, 1] \<and>
   unpooled_data_dict example_result =
     [(''N'', PyInt 3), (''county'', PyRef 4), (''x'', PyRef 2), (''y'', PyRef 0)] \<and>
   cells (objects example_result) 4 = IntArray Int64 [1, 2, 2] \<and>
   unpooled_estimates example_result =
     [(StrVal ''AITKIN'', Num 4), (StrVal ''ANOKA'', Num 2)] \<and>
   out7 example_result = [(StrVal ''AITKIN'', Num 4), (StrVal ''ANOKA'', Num 2)] \<and>
   order example_result = [StrVal ''ANOKA'', StrVal ''AITKIN'']"
proof -
  have "run (logged example_world) (0, []) =
          (Inr example_result,
           (1, [] @ cell1_events @ [Stan (stan_args (unpooled_data_dict example_result))]))"
    by (rule iffD2 [OF run_logged_Inr]) (rule conjI [OF example_run refl])
  then show ?thesis
    by (simp add: cell1_events_def example_result_def example_heap_def example_module_def)
qed

end
